theory Spec2Isabelle
  imports Main "HOL-Library.Sublist"
begin

section \<open>JavaScript strings and truthiness\<close>

text \<open>
  Strings are lists of 8-bit code units (the Latin-1 range); the one place where the
  code behaves differently on a text with a code unit above \<open>0xFF\<close>, the \<open>btoa\<close> call
  that issues the session cookie, has a type of its own for such texts (\<open>jstring\<close>
  below). An optional value (\<open>string | undefined\<close>, an unset environment variable, a
  missing header) is an \<open>option\<close>. JavaScript treats both \<open>undefined\<close> and the empty
  string as falsy; \<open>truthy\<close> is that test.
\<close>

definition truthy :: "string option \<Rightarrow> bool" where
  "truthy v = (case v of None \<Rightarrow> False | Some s \<Rightarrow> s \<noteq> [])"

text \<open>\<open>a || b\<close> on optional strings with a string default.\<close>

definition or_else :: "string option \<Rightarrow> string \<Rightarrow> string" where
  "or_else v d = (case v of None \<Rightarrow> d | Some s \<Rightarrow> (if s = [] then d else s))"

text \<open>
  \<open>s.replace(pat, rep)\<close> with a string pattern: only the first occurrence is replaced.
  (The replacement used by the code contains no \<open>$\<close> pattern.)
\<close>

fun replace_first :: "string \<Rightarrow> string \<Rightarrow> string \<Rightarrow> string" where
  "replace_first pat rep [] = (if pat = [] then rep else [])"
| "replace_first pat rep (c # cs) =
     (if prefix pat (c # cs) then rep @ drop (length pat) (c # cs)
      else c # replace_first pat rep cs)"

text \<open>\<open>s.replace(/\/$/, "")\<close>: one trailing slash, if there is one, is removed.\<close>

definition strip_trailing_slash :: "string \<Rightarrow> string" where
  "strip_trailing_slash s = (if s \<noteq> [] \<and> last s = CHR ''/'' then butlast s else s)"

text \<open>
  \<open>s.toLowerCase()\<close> on Latin-1 code units: \<open>A\<close>..\<open>Z\<close> and the accented capitals
  \<open>0xC0\<close>..\<open>0xDE\<close> (without the multiplication sign \<open>0xD7\<close>) move up by 32.
\<close>

definition lower_char :: "char \<Rightarrow> char" where
  "lower_char c =
     (let n = of_char c :: nat
      in if (65 \<le> n \<and> n \<le> 90) \<or> (192 \<le> n \<and> n \<le> 222 \<and> n \<noteq> 215)
         then char_of (n + 32) else c)"

definition toLowerCase :: "string \<Rightarrow> string" where
  "toLowerCase s = map lower_char s"

text \<open>A non-negative integer in a template literal: its decimal digits.\<close>

definition digit_char :: "nat \<Rightarrow> char" where
  "digit_char d = char_of (48 + d)"

fun show_nat :: "nat \<Rightarrow> string" where
  "show_nat n = (if n < 10 then [digit_char n] else show_nat (n div 10) @ [digit_char (n mod 10)])"

definition is_digit :: "char \<Rightarrow> bool" where
  "is_digit c = (48 \<le> (of_char c :: nat) \<and> (of_char c :: nat) \<le> 57)"

section \<open>JavaScript values, exceptions and the runtime\<close>

text \<open>
  The values a handler can meet after \<open>JSON.parse\<close> or build as a JSON body. Numbers are
  integers (the code only produces and compares whole seconds); \<open>JFun\<close> stands for
  the one function value a handler can read from decoded data, the method
  \<open>String.prototype.sub\<close> that every string inherits.
\<close>

datatype jsval =
    JUndefined | JNull | JBool bool | JNum int | JStr string
  | JArr "jsval list" | JObj "(string \<times> jsval) list" | JFun

text \<open>
  What a \<open>throw\<close> carries: a schema error of the validation library with its issues, an
  \<open>Error\<close> (or a subclass such as \<open>TypeError\<close>) with its message, or any other value.
\<close>

datatype exn = ZodError jsval | Error string | Thrown jsval

definition TypeError :: exn where
  "TypeError = Error ''TypeError''"

fun js_truthy :: "jsval \<Rightarrow> bool" where
  "js_truthy JUndefined = False"
| "js_truthy JNull = False"
| "js_truthy (JBool b) = b"
| "js_truthy (JNum n) = (n \<noteq> 0)"
| "js_truthy (JStr s) = (s \<noteq> [])"
| "js_truthy (JArr vs) = True"
| "js_truthy (JObj kvs) = True"
| "js_truthy JFun = True"

text \<open>
  Property read \<open>v.k\<close> for the keys the handlers read (\<open>sub\<close>, \<open>email\<close>, \<open>name\<close>,
  \<open>exp\<close>, \<open>user\<close>, \<open>extra\<close>, \<open>method\<close>, \<open>params\<close>, \<open>id\<close>, \<open>arguments\<close>). Reading from
  \<open>undefined\<close> or \<open>null\<close> throws a \<open>TypeError\<close>. In an object the last binding of a key
  counts, as after \<open>JSON.parse\<close>. A string inherits the method \<open>String.prototype.sub\<close>;
  no other of these keys is inherited by a primitive, an array or a function.
\<close>

fun get_prop :: "jsval \<Rightarrow> string \<Rightarrow> exn + jsval" where
  "get_prop JUndefined k = Inl TypeError"
| "get_prop JNull k = Inl TypeError"
| "get_prop (JObj kvs) k =
     Inr (case map_of (rev kvs) k of None \<Rightarrow> JUndefined | Some v \<Rightarrow> v)"
| "get_prop (JStr s) k = Inr (if k = ''sub'' then JFun else JUndefined)"
| "get_prop JFun k = Inr (if k = ''name'' then JStr ''sub'' else JUndefined)"
| "get_prop v k = Inr JUndefined"

text \<open>Optional chaining \<open>v?.k\<close>: \<open>undefined\<close> when \<open>v\<close> is \<open>undefined\<close> or \<open>null\<close>.\<close>

definition opt_prop :: "jsval \<Rightarrow> string \<Rightarrow> jsval" where
  "opt_prop v k = (case get_prop v k of Inl e \<Rightarrow> JUndefined | Inr x \<Rightarrow> x)"

text \<open>
  The runtime functions the code calls. \<open>atob\<close> and \<open>JSON_parse\<close> return \<open>None\<close> where
  the JavaScript function throws; \<open>btoa\<close> is its restriction to the 8-bit strings, on
  which it does not throw. \<open>JSON_stringify_indent2\<close> is
  \<open>JSON.stringify(v, null, 2)\<close>. \<open>ToNumber\<close> is the numeric coercion of a value that is
  not a number or a boolean (\<open>None\<close> for \<open>NaN\<close>), \<open>ToString\<close> the conversion a template
  literal applies.
\<close>

record runtime =
  atob :: "string \<Rightarrow> string option"
  btoa :: "string \<Rightarrow> string"
  JSON_parse :: "string \<Rightarrow> jsval option"
  JSON_stringify :: "jsval \<Rightarrow> string"
  JSON_stringify_indent2 :: "jsval \<Rightarrow> string"
  ToNumber :: "jsval \<Rightarrow> int option"
  ToString :: "jsval \<Rightarrow> string"

text \<open>The comparison \<open>v < n\<close> of a value with a number; with \<open>NaN\<close> it is false.\<close>

definition js_less :: "runtime \<Rightarrow> jsval \<Rightarrow> int \<Rightarrow> bool" where
  "js_less rt v n =
     (case v of
        JNum m \<Rightarrow> m < n
      | JBool b \<Rightarrow> (if b then 1 else 0) < n
      | JNull \<Rightarrow> 0 < n
      | JUndefined \<Rightarrow> False
      | _ \<Rightarrow> (case ToNumber rt v of None \<Rightarrow> False | Some m \<Rightarrow> m < n))"

text \<open>An HTTP response, as far as the handlers determine it.\<close>

datatype location =
    Location string "(string \<times> string) list"
  | Resolved string string "(string \<times> string) list"

record response =
  status :: nat
  body :: "jsval option"
  redirect :: "location option"
  headers :: "(string \<times> string) list"
  deleted_cookies :: "string list"

text \<open>
  \<open>NextResponse.json(body, {status, headers})\<close> and \<open>NextResponse.redirect(url)\<close> (status
  307). \<open>Location url params\<close> is the absolute URL \<open>url\<close> with the query parameters
  \<open>params\<close> set on it, in this order; \<open>Resolved input base params\<close> is
  \<open>new URL(input, base)\<close> with \<open>params\<close> set on it.
\<close>

definition NextResponse_json :: "jsval \<Rightarrow> nat \<Rightarrow> (string \<times> string) list \<Rightarrow> response" where
  "NextResponse_json b st hs =
     \<lparr>status = st, body = Some b, redirect = None, headers = hs, deleted_cookies = []\<rparr>"

definition NextResponse_redirect :: "location \<Rightarrow> (string \<times> string) list \<Rightarrow> response" where
  "NextResponse_redirect loc hs =
     \<lparr>status = 307, body = None, redirect = Some loc, headers = hs, deleted_cookies = []\<rparr>"

definition cookies_delete :: "string \<Rightarrow> response \<Rightarrow> response" where
  "cookies_delete name r = r\<lparr>deleted_cookies := deleted_cookies r @ [name]\<rparr>"

section \<open>RedirectPolicy: \<open>lib/url-resolver.ts\<close>\<close>

text \<open>The part of \<open>process.env\<close> the code reads.\<close>

record env =
  PRODUCTION_URL :: "string option"
  NEXTAUTH_URL :: "string option"
  VERCEL_URL :: "string option"
  VERCEL_ENV :: "string option"
  VERCEL_PROJECT_PRODUCTION_URL :: "string option"
  NODE_ENV :: "string option"
  PORT :: "string option"
  HOST :: "string option"
  GOOGLE_CLIENT_ID :: "string option"
  GOOGLE_CLIENT_SECRET :: "string option"

definition DEFAULT_LOCAL_PORT :: string where
  "DEFAULT_LOCAL_PORT = ''3000''"

definition DEFAULT_LOCAL_HOST :: string where
  "DEFAULT_LOCAL_HOST = ''localhost''"

definition getBaseUrl :: "env \<Rightarrow> string" where
  "getBaseUrl e =
     (if truthy (PRODUCTION_URL e) then strip_trailing_slash (the (PRODUCTION_URL e))
      else if truthy (NEXTAUTH_URL e) then strip_trailing_slash (the (NEXTAUTH_URL e))
      else if truthy (VERCEL_URL e) then
        (if VERCEL_ENV e = Some ''production'' \<and> truthy (VERCEL_PROJECT_PRODUCTION_URL e)
         then ''https://'' @ the (VERCEL_PROJECT_PRODUCTION_URL e)
         else ''https://'' @ the (VERCEL_URL e))
      else if NODE_ENV e = Some ''development'' then
        ''http://'' @ or_else (HOST e) DEFAULT_LOCAL_HOST @ '':'' @ or_else (PORT e) DEFAULT_LOCAL_PORT
      else ''http://'' @ DEFAULT_LOCAL_HOST @ '':'' @ DEFAULT_LOCAL_PORT)"

text \<open>\<open>getRedirectUris()\<close> returns an object with the single key \<open>google\<close>.\<close>

definition getRedirectUris_google :: "env \<Rightarrow> string" where
  "getRedirectUris_google e = getBaseUrl e @ ''/api/auth/callback/google''"

definition allowedRedirects :: "env \<Rightarrow> string list" where
  "allowedRedirects e =
     [getRedirectUris_google e,
      ''http://localhost:3000/api/auth/callback/google'',
      ''http://127.0.0.1:3000/api/auth/callback/google'',
      ''https://person-search-pearl.vercel.app/api/auth/callback/google'']
     @ (if truthy (NEXTAUTH_URL e)
        then [strip_trailing_slash (the (NEXTAUTH_URL e) @ ''/api/auth/callback/google'')] else [])
     @ (if truthy (PRODUCTION_URL e)
        then [strip_trailing_slash (the (PRODUCTION_URL e) @ ''/api/auth/callback/google'')] else [])
     @ (if truthy (VERCEL_URL e)
        then [''https://'' @ the (VERCEL_URL e) @ ''/api/auth/callback/google''] else [])"

text \<open>
  The normalisation written inline in \<open>isAllowedRedirectUri\<close>:
  \<open>u.replace("127.0.0.1", "localhost").replace(/\/$/, "")\<close>.
\<close>

definition inline_normalize :: "string \<Rightarrow> string" where
  "inline_normalize u = strip_trailing_slash (replace_first ''127.0.0.1'' ''localhost'' u)"

definition isAllowedRedirectUri :: "env \<Rightarrow> string \<Rightarrow> bool" where
  "isAllowedRedirectUri e uri =
     (let normalizedUri = inline_normalize uri;
          normalizedAllowed = map inline_normalize (allowedRedirects e)
      in normalizedUri \<in> set normalizedAllowed)"

section \<open>CredentialValidator and helpers: \<open>lib/oauth-utils.ts\<close>\<close>

definition normalizeRedirectUri :: "string \<Rightarrow> string" where
  "normalizeRedirectUri uri =
     toLowerCase (strip_trailing_slash (replace_first ''127.0.0.1'' ''localhost'' uri))"

record validation =
  isValid :: bool
  error :: "string option"
  errorDescription :: "string option"

record TokenExchangeParams =
  grant_type :: string
  code :: "string option"
  redirect_uri :: "string option"
  client_id :: "string option"
  client_secret :: "string option"
  code_verifier :: "string option"

text \<open>
  \<open>validateTokenParams\<close>: the checks in the order of the source, each returning its own
  result object.
\<close>

definition validateTokenParams :: "TokenExchangeParams \<Rightarrow> validation" where
  "validateTokenParams params =
     (if grant_type params \<noteq> ''authorization_code'' then
        \<lparr>isValid = False, error = Some ''unsupported_grant_type'',
         errorDescription = Some ''Only authorization_code grant type is supported''\<rparr>
      else if \<not> truthy (code params) then
        \<lparr>isValid = False, error = Some ''invalid_request'',
         errorDescription = Some ''Missing authorization code''\<rparr>
      else if \<not> truthy (redirect_uri params) then
        \<lparr>isValid = False, error = Some ''invalid_request'',
         errorDescription = Some ''Missing redirect_uri''\<rparr>
      else \<lparr>isValid = True, error = None, errorDescription = None\<rparr>)"

record GoogleTokens =
  gt_access_token :: "string option"
  gt_id_token :: "string option"
  gt_refresh_token :: "string option"
  gt_expires_in :: "int option"
  gt_token_type :: "string option"
  gt_scope :: "string option"

record TokenResponse =
  access_token :: string
  token_type :: string
  expires_in :: "int option"
  refresh_token :: "string option"
  scope :: "string option"
  id_token :: "string option"

text \<open>
  \<open>buildTokenResponse(googleTokens, scope?, fallbackScope = "openid profile email")\<close>.
  A number is falsy when it is \<open>0\<close>; the optional fields are set only when truthy.
\<close>

definition buildTokenResponse ::
  "GoogleTokens \<Rightarrow> string option \<Rightarrow> string option \<Rightarrow> TokenResponse" where
  "buildTokenResponse googleTokens scope_arg fallbackScope =
     \<lparr>access_token =
        (if truthy (gt_id_token googleTokens) then the (gt_id_token googleTokens)
         else or_else (gt_access_token googleTokens) ''''),
      token_type = ''Bearer'',
      expires_in =
        Some (case gt_expires_in googleTokens of
                None \<Rightarrow> 3600 | Some n \<Rightarrow> (if n = 0 then 3600 else n)),
      refresh_token =
        (if truthy (gt_refresh_token googleTokens) then gt_refresh_token googleTokens else None),
      scope =
        Some (or_else scope_arg
               (case fallbackScope of None \<Rightarrow> ''openid profile email'' | Some f \<Rightarrow> f)),
      id_token =
        (if truthy (gt_id_token googleTokens) then gt_id_token googleTokens else None)\<rparr>"

record OAuth21AuthParams =
  ap_response_type :: "string option"
  ap_client_id :: "string option"
  ap_redirect_uri :: "string option"
  ap_scope :: "string option"
  ap_state :: "string option"
  ap_code_challenge :: "string option"
  ap_code_challenge_method :: "string option"

definition validateAuthParams :: "OAuth21AuthParams \<Rightarrow> validation" where
  "validateAuthParams params =
     (if ap_response_type params \<noteq> Some ''code'' then
        \<lparr>isValid = False, error = Some ''unsupported_response_type'',
         errorDescription = Some ''Only 'code' response type is supported''\<rparr>
      else if \<not> truthy (ap_client_id params) then
        \<lparr>isValid = False, error = Some ''invalid_request'',
         errorDescription = Some ''Missing client_id''\<rparr>
      else if \<not> truthy (ap_redirect_uri params) then
        \<lparr>isValid = False, error = Some ''invalid_request'',
         errorDescription = Some ''Missing redirect_uri''\<rparr>
      else if truthy (ap_code_challenge params)
              \<and> ap_code_challenge_method params \<noteq> Some ''S256'' then
        \<lparr>isValid = False, error = Some ''invalid_request'',
         errorDescription = Some ''Only S256 code challenge method is supported''\<rparr>
      else \<lparr>isValid = True, error = None, errorDescription = None\<rparr>)"

record CORSConfig =
  origin :: string
  methods :: string
  allow_headers :: string
  maxAge :: string

definition CORS_CONFIGS_api :: CORSConfig where
  "CORS_CONFIGS_api =
     \<lparr>origin = ''*'', methods = ''GET, POST, OPTIONS'',
      allow_headers = ''Content-Type, Authorization'', maxAge = ''86400''\<rparr>"

definition CORS_CONFIGS_oauth :: CORSConfig where
  "CORS_CONFIGS_oauth =
     \<lparr>origin = ''*'', methods = ''GET, POST, OPTIONS'',
      allow_headers = ''Content-Type, Authorization'', maxAge = ''3600''\<rparr>"

definition createCORSHeaders :: "CORSConfig \<Rightarrow> (string \<times> string) list" where
  "createCORSHeaders config =
     [(''Access-Control-Allow-Origin'', origin config),
      (''Access-Control-Allow-Methods'', methods config),
      (''Access-Control-Allow-Headers'', allow_headers config),
      (''Access-Control-Max-Age'', maxAge config)]"

text \<open>
  \<open>createOAuth21ErrorResponse(error, errorDescription, status = 400, additionalData,
  corsConfig = CORS_CONFIGS.oauth)\<close>; every caller leaves \<open>additionalData\<close> empty.
\<close>

definition createOAuth21ErrorResponse :: "string \<Rightarrow> string \<Rightarrow> nat \<Rightarrow> CORSConfig \<Rightarrow> response" where
  "createOAuth21ErrorResponse err descr st corsConfig =
     NextResponse_json
       (JObj [(''error'', JStr err), (''error_description'', JStr descr)])
       st (createCORSHeaders corsConfig)"

text \<open>
  \<open>createOAuth21ErrorRedirect\<close>. \<open>new URL(redirectUri)\<close> throws on text that is not an
  absolute URL; \<open>URL_valid\<close> says whether the runtime accepts it.
\<close>

definition createOAuth21ErrorRedirect ::
  "(string \<Rightarrow> bool) \<Rightarrow> string option \<Rightarrow> string \<Rightarrow> string \<Rightarrow> string option \<Rightarrow> response" where
  "createOAuth21ErrorRedirect URL_valid redirectUri err descr state =
     (if \<not> truthy redirectUri then
        createOAuth21ErrorResponse err descr 400 CORS_CONFIGS_oauth
      else if URL_valid (the redirectUri) then
        NextResponse_redirect
          (Location (the redirectUri)
             ([(''error'', err), (''error_description'', descr)]
              @ (if truthy state then [(''state'', the state)] else [])))
          (createCORSHeaders CORS_CONFIGS_oauth)
      else createOAuth21ErrorResponse ''invalid_request'' ''Invalid redirect_uri'' 400
             CORS_CONFIGS_oauth)"

text \<open>
  \<open>getGoogleAuthUrl(clientId, scope = "openid profile email", state?, codeChallenge?,
  codeChallengeMethod?)\<close> of \<open>lib/url-resolver.ts\<close>.
\<close>

definition getGoogleAuthUrl ::
  "env \<Rightarrow> string \<Rightarrow> string option \<Rightarrow> string option \<Rightarrow> string option \<Rightarrow> string option
     \<Rightarrow> location" where
  "getGoogleAuthUrl e clientId scope_arg state codeChallenge codeChallengeMethod =
     Location ''https://accounts.google.com/o/oauth2/v2/auth''
       ([(''client_id'', clientId),
         (''redirect_uri'', getRedirectUris_google e),
         (''response_type'', ''code''),
         (''scope'', (case scope_arg of None \<Rightarrow> ''openid profile email'' | Some sc \<Rightarrow> sc)),
         (''access_type'', ''offline''),
         (''prompt'', ''consent'')]
        @ (if truthy state then [(''state'', the state)] else [])
        @ (if truthy codeChallenge \<and> truthy codeChallengeMethod
           then [(''code_challenge'', the codeChallenge),
                 (''code_challenge_method'', the codeChallengeMethod)]
           else []))"

text \<open>\<open>v || undefined\<close> on an optional string: the empty string becomes \<open>undefined\<close>.\<close>

definition or_undefined :: "string option \<Rightarrow> string option" where
  "or_undefined v = (if truthy v then v else None)"

section \<open>Authorization endpoint: \<open>GET /api/auth/authorize\<close>\<close>

text \<open>
  The request is its query string: \<open>searchParams.get\<close> gives each parameter or \<open>null\<close>.
\<close>

definition authorize_params :: "(string \<Rightarrow> string option) \<Rightarrow> OAuth21AuthParams" where
  "authorize_params searchParams =
     \<lparr>ap_response_type = Some (or_else (searchParams ''response_type'') []),
      ap_client_id = Some (or_else (searchParams ''client_id'') []),
      ap_redirect_uri = Some (or_else (searchParams ''redirect_uri'') []),
      ap_scope = Some (or_else (searchParams ''scope'') ''openid profile email''),
      ap_state = searchParams ''state'',
      ap_code_challenge = searchParams ''code_challenge'',
      ap_code_challenge_method = or_undefined (searchParams ''code_challenge_method'')\<rparr>"

definition authorize_GET ::
  "(string \<Rightarrow> bool) \<Rightarrow> env \<Rightarrow> (string \<Rightarrow> string option) \<Rightarrow> response" where
  "authorize_GET URL_valid e searchParams =
     (let authParams = authorize_params searchParams;
          paramValidation = validateAuthParams authParams
      in if \<not> isValid paramValidation then
           createOAuth21ErrorRedirect URL_valid
             (Some (or_else (ap_redirect_uri authParams) []))
             (the (error paramValidation)) (the (errorDescription paramValidation))
             (ap_state authParams)
         else if \<not> truthy (GOOGLE_CLIENT_ID e) \<or> ap_client_id authParams \<noteq> GOOGLE_CLIENT_ID e then
           createOAuth21ErrorRedirect URL_valid
             (Some (or_else (ap_redirect_uri authParams) []))
             ''invalid_client'' ''Invalid client identifier'' (ap_state authParams)
         else if \<not> isAllowedRedirectUri e
                     (normalizeRedirectUri (or_else (ap_redirect_uri authParams) [])) then
           createOAuth21ErrorResponse ''invalid_request'' ''Invalid redirect_uri'' 400
             CORS_CONFIGS_oauth
         else
           NextResponse_redirect
             (getGoogleAuthUrl e (the (GOOGLE_CLIENT_ID e))
                (or_undefined (ap_scope authParams)) (or_undefined (ap_state authParams))
                (or_undefined (ap_code_challenge authParams))
                (or_undefined (ap_code_challenge_method authParams)))
             [])"

section \<open>SessionManager: issuing and validating the session cookie\<close>

text \<open>
  Issuance, at the end of the upstream callback (\<open>api/auth/callback/google/route.ts\<close>).
  \<open>userInfo\<close> is the verified identity, the provider's reply with the texts \<open>sub\<close>
  (present, since the callback has thrown otherwise), \<open>email\<close> and \<open>name\<close> (either may
  be missing). A text is \<open>Latin1 s\<close> when all its UTF-16 code units are below \<open>0x100\<close>,
  and \<open>Wide us\<close>, with its code units, when one is not.
\<close>

datatype jstring = Latin1 string | Wide "nat list"

record identity =
  id_sub :: jstring
  id_email :: "jstring option"
  id_name :: "jstring option"

text \<open>
  The payload object \<open>{sub, email, name, iat, exp}\<close>; \<open>Date.now()\<close> is read twice, giving
  \<open>now1\<close> and \<open>now2\<close> in milliseconds. The strings of \<open>jsval\<close> cannot hold a wide text:
  the payload is \<open>None\<close> when a claim is one.
\<close>

definition claim :: "jstring option \<Rightarrow> jsval option" where
  "claim t = (case t of
                None \<Rightarrow> Some JUndefined
              | Some (Latin1 s) \<Rightarrow> Some (JStr s)
              | Some (Wide us) \<Rightarrow> None)"

definition session_payload :: "identity \<Rightarrow> int \<Rightarrow> int \<Rightarrow> jsval option" where
  "session_payload userInfo now1 now2 =
     (case (claim (Some (id_sub userInfo)), claim (id_email userInfo), claim (id_name userInfo)) of
        (Some sub, Some email, Some name) \<Rightarrow>
          Some (JObj [(''sub'', sub),
                      (''email'', email),
                      (''name'', name),
                      (''iat'', JNum (now1 div 1000)),
                      (''exp'', JNum (now2 div 1000 + 60 * 60 * 24))])
      | _ \<Rightarrow> None)"

text \<open>
  \<open>btoa(JSON.stringify(payload))\<close>. \<open>JSON.stringify\<close> leaves a code unit above \<open>0xFF\<close>
  as it is, and \<open>btoa\<close> throws an \<open>InvalidCharacterError\<close> on a text that has one: with a
  wide claim no token is made.
\<close>

definition sessionToken :: "runtime \<Rightarrow> identity \<Rightarrow> int \<Rightarrow> int \<Rightarrow> exn + string" where
  "sessionToken rt userInfo now1 now2 =
     (case session_payload userInfo now1 now2 of
        None \<Rightarrow> Inl (Error ''InvalidCharacterError'')
      | Some payload \<Rightarrow> Inr (btoa rt (JSON_stringify rt payload)))"

record cookie =
  cookie_name :: string
  cookie_value :: string
  httpOnly :: bool
  secure :: bool
  sameSite :: string
  cookie_maxAge :: int
  cookie_path :: string

text \<open>
  The cookie the callback sets on its response. An exception of \<open>btoa\<close> reaches the
  handler's outer \<open>catch\<close>, which answers with a redirect to the error page and sets no
  cookie.
\<close>

definition callback_session_cookie ::
  "runtime \<Rightarrow> env \<Rightarrow> identity \<Rightarrow> int \<Rightarrow> int \<Rightarrow> exn + cookie" where
  "callback_session_cookie rt e userInfo now1 now2 =
     (case sessionToken rt userInfo now1 now2 of
        Inl err \<Rightarrow> Inl err
      | Inr token \<Rightarrow>
          Inr \<lparr>cookie_name = ''oauth_session'',
               cookie_value = token,
               httpOnly = True,
               secure = (NODE_ENV e = Some ''production''),
               sameSite = ''lax'',
               cookie_maxAge = 60 * 60 * 24,
               cookie_path = ''/''\<rparr>)"

text \<open>
  \<open>JSON.parse(atob(value))\<close>: either step may throw.
\<close>

definition decode_session :: "runtime \<Rightarrow> string \<Rightarrow> exn + jsval" where
  "decode_session rt v =
     (case atob rt v of
        None \<Rightarrow> Inl (Error ''InvalidCharacterError'')
      | Some s \<Rightarrow>
          (case JSON_parse rt s of
             None \<Rightarrow> Inl (Error ''SyntaxError'')
           | Some sessionData \<Rightarrow> Inr sessionData))"

text \<open>
  The session-status endpoint \<open>GET /api/auth/session\<close>. \<open>session_status_body\<close> is the
  JSON it answers with; \<open>session_try\<close> is the inner \<open>try\<close> block, whose \<open>catch\<close> answers
  "Invalid session format" and deletes the cookie.
\<close>

definition session_status_body :: "bool \<Rightarrow> jsval \<Rightarrow> string \<Rightarrow> jsval" where
  "session_status_body auth usr msg =
     JObj [(''authenticated'', JBool auth), (''user'', usr), (''message'', JStr msg)]"

definition session_try :: "runtime \<Rightarrow> string \<Rightarrow> int \<Rightarrow> exn + response" where
  "session_try rt v now_ms =
     (case decode_session rt v of
        Inl e \<Rightarrow> Inl e
      | Inr sessionData \<Rightarrow>
          (let now = now_ms div 1000
           in (case get_prop sessionData ''exp'' of
                 Inl e \<Rightarrow> Inl e
               | Inr exp \<Rightarrow>
                   (if js_truthy exp \<and> js_less rt exp now then
                      Inr (NextResponse_json
                             (session_status_body False JNull ''Session expired'') 200 [])
                    else
                      Inr (NextResponse_json
                             (session_status_body True
                                (JObj [(''sub'', opt_prop sessionData ''sub''),
                                       (''email'', opt_prop sessionData ''email''),
                                       (''name'', opt_prop sessionData ''name''),
                                       (''exp'', exp)])
                                ''Session valid'') 200 [])))))"

definition session_GET :: "runtime \<Rightarrow> string option \<Rightarrow> int \<Rightarrow> response" where
  "session_GET rt sessionCookie now_ms =
     (case sessionCookie of
        None \<Rightarrow> NextResponse_json (session_status_body False JNull ''No session found'') 200 []
      | Some v \<Rightarrow>
          (case session_try rt v now_ms of
             Inr r \<Rightarrow> r
           | Inl parseError \<Rightarrow>
               cookies_delete ''oauth_session''
                 (NextResponse_json
                    (session_status_body False JNull ''Invalid session format'') 200 [])))"

section \<open>Logout endpoint: \<open>api/auth/logout/route.ts\<close>\<close>

definition logout_POST :: response where
  "logout_POST =
     cookies_delete ''oauth_nonce''
       (cookies_delete ''oauth_state''
          (cookies_delete ''oauth_session''
             (NextResponse_json
                (JObj [(''success'', JBool True), (''message'', JStr ''Logged out successfully'')])
                200 [])))"

text \<open>
  \<open>GET\<close>: \<open>URL_ok input base\<close> says whether \<open>new URL(input, base)\<close> succeeds (it throws a
  \<open>TypeError\<close> otherwise), \<open>has_logout input base\<close> whether that URL already has a query
  parameter \<open>logout\<close>. The \<open>try\<close> block builds a first response, deletes the cookie on it,
  then returns a second response built from \<open>finalUrl\<close>; the \<open>catch\<close> block returns the
  response it deleted the cookie on. An exception of the \<open>catch\<close> block leaves the handler.
\<close>

definition logout_GET ::
  "(string \<Rightarrow> string \<Rightarrow> bool) \<Rightarrow> (string \<Rightarrow> string \<Rightarrow> bool) \<Rightarrow> string
     \<Rightarrow> (string \<Rightarrow> string option) \<Rightarrow> exn + response" where
  "logout_GET URL_ok has_logout request_url searchParams =
     (let redirectUrl = or_else (searchParams ''redirect'') ''/auth/login''
      in if URL_ok redirectUrl request_url then
           (let response = cookies_delete ''oauth_session''
                             (NextResponse_redirect (Resolved redirectUrl request_url []) []);
                finalUrl = Resolved redirectUrl request_url
                             (if \<not> has_logout redirectUrl request_url
                              then [(''logout'', ''success'')] else [])
            in Inr (NextResponse_redirect finalUrl []))
         else if URL_ok ''/auth/login'' request_url then
           Inr (cookies_delete ''oauth_session''
                  (NextResponse_redirect (Resolved ''/auth/login'' request_url []) []))
         else Inl TypeError)"

section \<open>MCP tool schemas: \<open>lib/mcp-server.ts\<close>\<close>

text \<open>
  The schemas are built with the validation library \<open>zod\<close>, which is not part of the
  repository. Two of its functions are parameters: \<open>is_email\<close>, the test behind
  \<open>z.string().email()\<close>, and \<open>issues_of\<close>, which gives the array of issue objects
  (\<open>error.errors\<close> of the \<open>ZodError\<close> thrown) that the library reports for an input that
  fails the schema of the given name.
\<close>

record zod =
  is_email :: "string \<Rightarrow> bool"
  issues_of :: "string \<Rightarrow> jsval \<Rightarrow> jsval"

text \<open>The input of \<open>z.object\<close>: an object's fields (last binding of a key), or no object.\<close>

definition object_field :: "jsval \<Rightarrow> string \<Rightarrow> jsval" where
  "object_field args k = (case map_of (rev (case args of JObj kvs \<Rightarrow> kvs | _ \<Rightarrow> [])) k of
                            None \<Rightarrow> JUndefined | Some v \<Rightarrow> v)"

definition is_object :: "jsval \<Rightarrow> bool" where
  "is_object v = (case v of JObj kvs \<Rightarrow> True | _ \<Rightarrow> False)"

definition string_ok :: "jsval \<Rightarrow> bool" where
  "string_ok v = (case v of JStr s \<Rightarrow> True | _ \<Rightarrow> False)"

definition the_string :: "jsval \<Rightarrow> string" where
  "the_string v = (case v of JStr s \<Rightarrow> s | _ \<Rightarrow> [])"

definition name_ok :: "jsval \<Rightarrow> bool" where
  "name_ok v = (case v of JStr s \<Rightarrow> length s \<ge> 2 | _ \<Rightarrow> False)"

definition email_field_ok :: "zod \<Rightarrow> jsval \<Rightarrow> bool" where
  "email_field_ok z v = (case v of JStr s \<Rightarrow> is_email z s | _ \<Rightarrow> False)"

text \<open>The pattern \<open>/^04\d{8}$/\<close>.\<close>

definition phone_ok :: "jsval \<Rightarrow> bool" where
  "phone_ok v =
     (case v of
        JStr s \<Rightarrow> length s = 10 \<and> take 2 s = ''04'' \<and> list_all is_digit (drop 2 s)
      | _ \<Rightarrow> False)"

definition optional_ok :: "(jsval \<Rightarrow> bool) \<Rightarrow> jsval \<Rightarrow> bool" where
  "optional_ok ok v = (v = JUndefined \<or> ok v)"

text \<open>
  A schema is the list of its fields with the test of each; \<open>failing\<close> gives the fields
  of an input that fail, in schema order.
\<close>

definition failing :: "jsval \<Rightarrow> (string \<times> (jsval \<Rightarrow> bool)) list \<Rightarrow> string list" where
  "failing args checks = map fst (filter (\<lambda>(k, ok). \<not> ok (object_field args k)) checks)"

text \<open>
  \<open>schema.parse(args)\<close> returns the validated input, or throws a \<open>ZodError\<close> carrying the
  library's issues when the input is not an object or a field fails.
\<close>

definition zod_parse ::
  "zod \<Rightarrow> string \<Rightarrow> (string \<times> (jsval \<Rightarrow> bool)) list \<Rightarrow> jsval \<Rightarrow> exn + jsval" where
  "zod_parse z schema_name checks args =
     (if \<not> is_object args \<or> failing args checks \<noteq> []
      then Inl (ZodError (issues_of z schema_name args))
      else Inr args)"

definition searchUsersSchema :: "(string \<times> (jsval \<Rightarrow> bool)) list" where
  "searchUsersSchema = [(''query'', string_ok)]"

definition addUserSchema :: "zod \<Rightarrow> (string \<times> (jsval \<Rightarrow> bool)) list" where
  "addUserSchema z =
     [(''name'', name_ok), (''email'', email_field_ok z), (''phoneNumber'', phone_ok)]"

definition updateUserSchema :: "zod \<Rightarrow> (string \<times> (jsval \<Rightarrow> bool)) list" where
  "updateUserSchema z =
     [(''id'', string_ok), (''name'', optional_ok name_ok),
      (''email'', optional_ok (email_field_ok z)),
      (''phoneNumber'', optional_ok phone_ok)]"

definition deleteUserSchema :: "(string \<times> (jsval \<Rightarrow> bool)) list" where
  "deleteUserSchema = [(''id'', string_ok)]"

definition getUserByIdSchema :: "(string \<times> (jsval \<Rightarrow> bool)) list" where
  "getUserByIdSchema = [(''id'', string_ok)]"

section \<open>MCP tool dispatcher: \<open>app/actions/mcp-actions.ts\<close>\<close>

text \<open>
  The data store and its CRUD actions (\<open>app/actions/actions.ts\<close> over the database) are
  external: each action takes the store, returns the store it leaves, and either
  returns a value or throws.
\<close>

record User =
  user_id :: string
  user_name :: string
  user_email :: string
  user_phoneNumber :: string

record 'db actions =
  searchUsers :: "string \<Rightarrow> 'db \<Rightarrow> (exn + User list) \<times> 'db"
  addUser :: "(string \<times> jsval) list \<Rightarrow> 'db \<Rightarrow> (exn + User) \<times> 'db"
  updateUser :: "string \<Rightarrow> (string \<times> jsval) list \<Rightarrow> 'db \<Rightarrow> (exn + User) \<times> 'db"
  deleteUser :: "string \<Rightarrow> 'db \<Rightarrow> (exn + unit) \<times> 'db"
  getUserById :: "string \<Rightarrow> 'db \<Rightarrow> (exn + User option) \<times> 'db"

definition User_json :: "User \<Rightarrow> jsval" where
  "User_json u =
     JObj [(''id'', JStr (user_id u)), (''name'', JStr (user_name u)),
           (''email'', JStr (user_email u)), (''phoneNumber'', JStr (user_phoneNumber u))]"

text \<open>\<open>user?.extra ? {name: user.extra.name, email: user.extra.email} : null\<close>.\<close>

definition acting_user :: "jsval \<Rightarrow> jsval" where
  "acting_user usr =
     (if js_truthy (opt_prop usr ''extra'')
      then JObj [(''name'', opt_prop (opt_prop usr ''extra'') ''name''),
                 (''email'', opt_prop (opt_prop usr ''extra'') ''email'')]
      else JNull)"

definition failure_payload :: "string \<Rightarrow> jsval" where
  "failure_payload msg = JObj [(''success'', JBool False), (''message'', JStr msg)]"

text \<open>The body of the \<open>try\<close> block: the payload to serialise, or what was thrown.\<close>

definition handleMCPTool_try ::
  "zod \<Rightarrow> 'db actions \<Rightarrow> string \<Rightarrow> jsval \<Rightarrow> jsval \<Rightarrow> 'db
     \<Rightarrow> (exn + jsval) \<times> 'db" where
  "handleMCPTool_try z acts toolName args usr db =
     (if toolName = ''search_users'' then
        (case zod_parse z ''searchUsersSchema'' searchUsersSchema args of
           Inl e \<Rightarrow> (Inl e, db)
         | Inr parsed \<Rightarrow>
             (case searchUsers acts (the_string (object_field parsed ''query'')) db of
                (Inl e, db') \<Rightarrow> (Inl e, db')
              | (Inr users, db') \<Rightarrow>
                  (Inr (JObj [(''success'', JBool True),
                              (''data'', JArr (map User_json users)),
                              (''message'', JStr (''Found '' @ show_nat (length users) @ '' user(s)'')),
                              (''requestedBy'', acting_user usr)]), db')))
      else if toolName = ''add_user'' then
        (case zod_parse z ''addUserSchema'' (addUserSchema z) args of
           Inl e \<Rightarrow> (Inl e, db)
         | Inr parsed \<Rightarrow>
             (case addUser acts
                     [(''name'', object_field parsed ''name''),
                      (''email'', object_field parsed ''email''),
                      (''phoneNumber'', object_field parsed ''phoneNumber'')] db of
                (Inl e, db') \<Rightarrow> (Inl e, db')
              | (Inr newUser, db') \<Rightarrow>
                  (Inr (JObj [(''success'', JBool True),
                              (''data'', User_json newUser),
                              (''message'', JStr (''Successfully created user: '' @ user_name newUser)),
                              (''createdBy'', acting_user usr)]), db')))
      else if toolName = ''update_user'' then
        (case zod_parse z ''updateUserSchema'' (updateUserSchema z) args of
           Inl e \<Rightarrow> (Inl e, db)
         | Inr parsed \<Rightarrow>
             (let filteredUpdateData =
                    filter (\<lambda>(k, v). v \<noteq> JUndefined)
                      [(''name'', object_field parsed ''name''),
                       (''email'', object_field parsed ''email''),
                       (''phoneNumber'', object_field parsed ''phoneNumber'')]
              in if filteredUpdateData = [] then
                   (Inr (failure_payload ''No valid fields provided for update''), db)
                 else
                   (case updateUser acts (the_string (object_field parsed ''id''))
                           filteredUpdateData db of
                      (Inl e, db') \<Rightarrow> (Inl e, db')
                    | (Inr updatedUser, db') \<Rightarrow>
                        (Inr (JObj [(''success'', JBool True),
                                    (''data'', User_json updatedUser),
                                    (''message'', JStr (''Successfully updated user: ''
                                                       @ user_name updatedUser)),
                                    (''updatedBy'', acting_user usr)]), db'))))
      else if toolName = ''delete_user'' then
        (case zod_parse z ''deleteUserSchema'' deleteUserSchema args of
           Inl e \<Rightarrow> (Inl e, db)
         | Inr parsed \<Rightarrow>
             (case deleteUser acts (the_string (object_field parsed ''id'')) db of
                (Inl e, db') \<Rightarrow> (Inl e, db')
              | (Inr u, db') \<Rightarrow>
                  (Inr (JObj [(''success'', JBool True),
                              (''message'', JStr (''Successfully deleted user with ID: ''
                                                 @ the_string (object_field parsed ''id''))),
                              (''deletedBy'', acting_user usr)]), db')))
      else if toolName = ''get_user_by_id'' then
        (case zod_parse z ''getUserByIdSchema'' getUserByIdSchema args of
           Inl e \<Rightarrow> (Inl e, db)
         | Inr parsed \<Rightarrow>
             (case getUserById acts (the_string (object_field parsed ''id'')) db of
                (Inl e, db') \<Rightarrow> (Inl e, db')
              | (Inr None, db') \<Rightarrow>
                  (Inr (failure_payload (''User with ID '' @ the_string (object_field parsed ''id'')
                                         @ '' not found'')), db')
              | (Inr (Some foundUser), db') \<Rightarrow>
                  (Inr (JObj [(''success'', JBool True),
                              (''data'', User_json foundUser),
                              (''message'', JStr (''Retrieved user: '' @ user_name foundUser)),
                              (''requestedBy'', acting_user usr)]), db')))
      else (Inr (failure_payload (''Unknown tool: '' @ toolName)), db))"

text \<open>The \<open>catch\<close> block: the payload for what was thrown.\<close>

definition handleMCPTool_catch :: "exn \<Rightarrow> jsval" where
  "handleMCPTool_catch err =
     (case err of
        ZodError issues \<Rightarrow>
          JObj [(''success'', JBool False), (''message'', JStr ''Invalid input parameters''),
                (''errors'', issues)]
      | Error msg \<Rightarrow> failure_payload msg
      | Thrown v \<Rightarrow> failure_payload ''Unknown error occurred'')"

text \<open>
  \<open>handleMCPTool\<close>: the payload, serialised by \<open>JSON.stringify(payload, null, 2)\<close>. The
  result type has an exception channel so that its emptiness is a theorem.
\<close>

definition handleMCPTool ::
  "runtime \<Rightarrow> zod \<Rightarrow> 'db actions \<Rightarrow> string \<Rightarrow> jsval \<Rightarrow> jsval \<Rightarrow> 'db
     \<Rightarrow> (exn + string) \<times> 'db" where
  "handleMCPTool rt z acts toolName args usr db =
     (case handleMCPTool_try z acts toolName args usr db of
        (Inr payload, db') \<Rightarrow> (Inr (JSON_stringify_indent2 rt payload), db')
      | (Inl err, db') \<Rightarrow> (Inr (JSON_stringify_indent2 rt (handleMCPTool_catch err)), db'))"

section \<open>RequestAuthenticator and JSON-RPC endpoint: \<open>app/api/mcp/route.ts\<close>\<close>

text \<open>
  The request: the value of the \<open>authorization\<close> header field as it was sent (\<open>None\<close>
  when there is no such header), the value of the \<open>oauth_session\<close> cookie, and what
  \<open>request.json()\<close> gives (\<open>None\<close> when it throws).
\<close>

record mcp_request =
  authorization :: "string option"
  oauth_session :: "string option"
  rpc_body :: "jsval option"

text \<open>
  \<open>request.headers.get(name)\<close>: the platform hands a header value over without its
  leading and trailing HTTP whitespace (line feed, carriage return, tab, space).
\<close>

definition is_http_whitespace :: "char \<Rightarrow> bool" where
  "is_http_whitespace c = (c \<in> set [CHR 0x0A, CHR 0x0D, CHR 0x09, CHR '' ''])"

definition http_trim :: "string \<Rightarrow> string" where
  "http_trim s = rev (dropWhile is_http_whitespace (rev (dropWhile is_http_whitespace s)))"

definition headers_get :: "string option \<Rightarrow> string option" where
  "headers_get field = map_option http_trim field"

record auth_result =
  authenticated :: bool
  auth_user :: jsval
  auth_error :: "string option"
  errorResponse :: "response option"

definition jsonrpc_error :: "jsval \<Rightarrow> int \<Rightarrow> string \<Rightarrow> jsval" where
  "jsonrpc_error rpc_id err_code msg =
     JObj [(''jsonrpc'', JStr ''2.0''), (''id'', rpc_id),
           (''error'', JObj [(''code'', JNum err_code), (''message'', JStr msg)])]"

definition jsonrpc_result :: "jsval \<Rightarrow> jsval \<Rightarrow> jsval" where
  "jsonrpc_result rpc_id res =
     JObj [(''jsonrpc'', JStr ''2.0''), (''id'', rpc_id), (''result'', res)]"

definition WWW_Authenticate :: "string \<times> string" where
  "WWW_Authenticate =
     (''WWW-Authenticate'',
      ''Bearer realm='' @ [CHR 0x22] @ ''mcp'' @ [CHR 0x22] @ '', scope='' @ [CHR 0x22]
        @ ''read:mcp write:mcp'' @ [CHR 0x22])"

definition auth_failure :: "string \<Rightarrow> response \<Rightarrow> auth_result" where
  "auth_failure err resp =
     \<lparr>authenticated = False, auth_user = JUndefined, auth_error = Some err,
      errorResponse = Some resp\<rparr>"

definition auth_success :: "jsval \<Rightarrow> auth_result" where
  "auth_success usr =
     \<lparr>authenticated = True, auth_user = usr, auth_error = None, errorResponse = None\<rparr>"

text \<open>The second half of \<open>authenticateMCPRequest\<close>: the session cookie.\<close>

definition session_userInfo :: "jsval \<Rightarrow> jsval" where
  "session_userInfo sessionData =
     JObj [(''token'', JStr ''session-based''),
           (''clientId'', opt_prop sessionData ''sub''),
           (''scopes'', JArr [JStr ''read:mcp'', JStr ''write:mcp'', JStr ''persons:read'',
                             JStr ''persons:write'']),
           (''extra'', JObj [(''email'', opt_prop sessionData ''email''),
                            (''name'', opt_prop sessionData ''name''),
                            (''provider'', JStr ''session''),
                            (''tokenType'', JStr ''session_cookie''),
                            (''mcpCompliant'', JStr ''2025-06-18'')])]"

definition authenticate_session :: "runtime \<Rightarrow> int \<Rightarrow> string option \<Rightarrow> auth_result" where
  "authenticate_session rt now_ms sessionCookie =
     (case sessionCookie of
        None \<Rightarrow>
          auth_failure ''Missing authorization header or session cookie''
            (NextResponse_json
               (jsonrpc_error JNull (- 32603)
                  ''Unauthorized - Missing authorization header or session cookie'')
               401 (WWW_Authenticate # createCORSHeaders CORS_CONFIGS_api))
      | Some v \<Rightarrow>
          (case (case decode_session rt v of
                   Inl e \<Rightarrow> Inl e
                 | Inr sessionData \<Rightarrow>
                     (case get_prop sessionData ''exp'' of
                        Inl e \<Rightarrow> Inl e
                      | Inr exp \<Rightarrow> Inr (sessionData, exp))) of
             Inl parseError \<Rightarrow>
               auth_failure ''Invalid session cookie''
                 (NextResponse_json
                    (jsonrpc_error JNull (- 32603) ''Unauthorized - Invalid session'')
                    401 (createCORSHeaders CORS_CONFIGS_api))
           | Inr (sessionData, exp) \<Rightarrow>
               (if js_truthy exp \<and> js_less rt exp (now_ms div 1000) then
                  auth_failure ''Session expired''
                    (NextResponse_json
                       (jsonrpc_error JNull (- 32603) ''Unauthorized - Session expired'')
                       401 (createCORSHeaders CORS_CONFIGS_api))
                else auth_success (session_userInfo sessionData))))"

text \<open>
  \<open>authHeader.startsWith("Bearer ") ? authHeader.slice(7) : authHeader\<close>.
\<close>

definition bearer_token :: "string \<Rightarrow> string" where
  "bearer_token authHeader =
     (if prefix ''Bearer '' authHeader then drop 7 authHeader else authHeader)"

text \<open>
  \<open>authenticateMCPRequest\<close>. An absent header and an empty header value are both falsy.
  An empty token is answered at once; a token that \<open>verifyGoogleToken\<close> rejects (by
  throwing or by a falsy result) leads on to the session cookie.
\<close>

definition authenticateMCPRequest ::
  "runtime \<Rightarrow> (string \<Rightarrow> exn + jsval) \<Rightarrow> int \<Rightarrow> mcp_request \<Rightarrow> auth_result" where
  "authenticateMCPRequest rt verifyGoogleToken now_ms request =
     (if truthy (headers_get (authorization request)) then
        (let authHeader = the (headers_get (authorization request));
             token = bearer_token authHeader
         in if token = [] then
              auth_failure ''Invalid authorization header format''
                (NextResponse_json
                   (jsonrpc_error JNull (- 32603) ''Unauthorized - Invalid token format'')
                   401 (WWW_Authenticate # createCORSHeaders CORS_CONFIGS_api))
            else
              (case verifyGoogleToken token of
                 Inr userInfo \<Rightarrow>
                   (if js_truthy userInfo then auth_success (opt_prop userInfo ''user'')
                    else authenticate_session rt now_ms (oauth_session request))
               | Inl verifyError \<Rightarrow> authenticate_session rt now_ms (oauth_session request)))
      else authenticate_session rt now_ms (oauth_session request))"

definition requiresAuthentication :: "jsval \<Rightarrow> bool" where
  "requiresAuthentication method =
     (let publicMethods = [JStr ''initialize'', JStr ''tools/list'']
      in \<not> (method \<in> set publicMethods))"

definition MCP_TOOL_NAMES :: "string list" where
  "MCP_TOOL_NAMES = [''search_users'', ''add_user'', ''update_user'', ''delete_user'', ''get_user_by_id'']"

definition api_json :: "jsval \<Rightarrow> response" where
  "api_json b = NextResponse_json b 200 (createCORSHeaders CORS_CONFIGS_api)"

definition parse_error_response :: response where
  "parse_error_response =
     NextResponse_json (jsonrpc_error JNull (- 32700) ''Parse error'') 400
       (createCORSHeaders CORS_CONFIGS_api)"

definition initialize_result :: jsval where
  "initialize_result =
     JObj [(''protocolVersion'', JStr ''2024-11-05''),
           (''capabilities'', JObj [(''tools'', JObj []), (''resources'', JObj []),
                                   (''prompts'', JObj [])]),
           (''serverInfo'', JObj [(''name'', JStr ''person-search-mcp-server''),
                                 (''version'', JStr ''1.0.0''),
                                 (''description'',
                                  JStr ''OAuth-secured MCP Server for Person Search App'')])]"

text \<open>
  The \<open>tools/call\<close> case. \<open>MCP_TOOLS\<close>, the static tool descriptions listed by
  \<open>tools/list\<close>, is a parameter.
\<close>

definition tools_call ::
  "runtime \<Rightarrow> zod \<Rightarrow> 'db actions \<Rightarrow> jsval \<Rightarrow> jsval \<Rightarrow> 'db \<Rightarrow> response \<times> 'db" where
  "tools_call rt z acts b userContext db =
     (let rpc_id = opt_prop b ''id''; params = opt_prop b ''params''
      in if \<not> js_truthy params then
           (api_json (jsonrpc_error rpc_id (- 32602) ''Missing parameters''), db)
         else
           (let name = opt_prop params ''name''; args = opt_prop params ''arguments''
            in if \<not> js_truthy name \<or> \<not> string_ok name then
                 (api_json (jsonrpc_error rpc_id (- 32602) ''Invalid tool name''), db)
               else if the_string name \<notin> set MCP_TOOL_NAMES then
                 (api_json (jsonrpc_error rpc_id (- 32601)
                              (''Tool '' @ [CHR 0x27] @ the_string name @ [CHR 0x27] @ '' not found'')), db)
               else
                 (case handleMCPTool rt z acts (the_string name)
                         (if js_truthy args then args else JObj []) userContext db of
                    (Inr result, db') \<Rightarrow>
                      (api_json (jsonrpc_result rpc_id
                                   (JObj [(''content'',
                                           JArr [JObj [(''type'', JStr ''text''),
                                                       (''text'', JStr result)]])])), db')
                  | (Inl err, db') \<Rightarrow>
                      (api_json
                         (JObj [(''jsonrpc'', JStr ''2.0''), (''id'', rpc_id),
                                (''error'',
                                 JObj [(''code'', JNum (- 32603)),
                                       (''message'', JStr ''Tool execution failed''),
                                       (''data'',
                                        (case err of
                                           Error msg \<Rightarrow> JStr msg
                                         | ZodError issues \<Rightarrow> JStr (JSON_stringify_indent2 rt issues)
                                         | Thrown v \<Rightarrow> JStr ''Unknown error''))])]), db'))))"

definition POST ::
  "runtime \<Rightarrow> (string \<Rightarrow> exn + jsval) \<Rightarrow> zod \<Rightarrow> 'db actions \<Rightarrow> jsval \<Rightarrow> int
     \<Rightarrow> mcp_request \<Rightarrow> 'db \<Rightarrow> response \<times> 'db" where
  "POST rt verifyGoogleToken z acts MCP_TOOLS now_ms request db =
     (case rpc_body request of
        None \<Rightarrow> (parse_error_response, db)
      | Some b \<Rightarrow>
          (case get_prop b ''method'' of
             Inl e \<Rightarrow> (parse_error_response, db)
           | Inr method \<Rightarrow>
               (let authResult =
                      (if requiresAuthentication method
                       then Some (authenticateMCPRequest rt verifyGoogleToken now_ms request)
                       else None)
                in if (case authResult of None \<Rightarrow> False | Some a \<Rightarrow> \<not> authenticated a) then
                     (the (errorResponse (the authResult)), db)
                   else
                     (let userContext =
                            (case authResult of
                               None \<Rightarrow> JUndefined
                             | Some a \<Rightarrow> (if js_truthy (auth_user a) then auth_user a else JObj []))
                      in if method = JStr ''initialize'' then
                           (api_json (jsonrpc_result (opt_prop b ''id'') initialize_result), db)
                         else if method = JStr ''tools/list'' then
                           (api_json (jsonrpc_result (opt_prop b ''id'')
                                        (JObj [(''tools'', MCP_TOOLS)])), db)
                         else if method = JStr ''tools/call'' then
                           tools_call rt z acts b userContext db
                         else if method = JStr ''notifications/initialized'' then
                           (\<lparr>status = 204, body = None, redirect = None,
                             headers = createCORSHeaders CORS_CONFIGS_api,
                             deleted_cookies = []\<rparr>, db)
                         else
                           (api_json
                              (jsonrpc_error (opt_prop b ''id'') (- 32601)
                                 (''Method '' @ [CHR 0x27] @ ToString rt method @ [CHR 0x27]
                                  @ '' not found'')), db)))))"

section \<open>A reference runtime\<close>

text \<open>
  An executable instance of the runtime, used to evaluate the handlers on concrete
  cookies: base64 as \<open>btoa\<close> and \<open>atob\<close> compute it (\<open>atob\<close> ignores ASCII whitespace,
  accepts missing or complete padding, and throws on any other character or on a length
  of 1 modulo 4), and JSON text for the values of the model (integers without fraction
  or exponent, \<open>\u\<close> escapes below 256).
\<close>

definition b64_char :: "nat \<Rightarrow> char" where
  "b64_char n =
     (if n < 26 then char_of (n + 65)
      else if n < 52 then char_of (n + 71)
      else if n < 62 then char_of (n - 4)
      else if n = 62 then CHR ''+'' else CHR ''/'')"

definition b64_index :: "char \<Rightarrow> nat option" where
  "b64_index c =
     (let n = of_char c :: nat
      in if 65 \<le> n \<and> n \<le> 90 then Some (n - 65)
         else if 97 \<le> n \<and> n \<le> 122 then Some (n - 71)
         else if 48 \<le> n \<and> n \<le> 57 then Some (n + 4)
         else if n = 43 then Some 62
         else if n = 47 then Some 63
         else None)"

fun b64_encode :: "nat list \<Rightarrow> string" where
  "b64_encode (a # b # c # r) =
     [b64_char (a div 4), b64_char ((a mod 4) * 16 + b div 16),
      b64_char ((b mod 16) * 4 + c div 64), b64_char (c mod 64)] @ b64_encode r"
| "b64_encode [a, b] =
     [b64_char (a div 4), b64_char ((a mod 4) * 16 + b div 16),
      b64_char ((b mod 16) * 4), CHR ''='']"
| "b64_encode [a] = [b64_char (a div 4), b64_char ((a mod 4) * 16), CHR ''='', CHR ''='']"
| "b64_encode [] = []"

fun b64_decode :: "nat list \<Rightarrow> nat list" where
  "b64_decode (a # b # c # d # r) =
     [a * 4 + b div 16, (b mod 16) * 16 + c div 4, (c mod 4) * 64 + d] @ b64_decode r"
| "b64_decode [a, b, c] = [a * 4 + b div 16, (b mod 16) * 16 + c div 4]"
| "b64_decode [a, b] = [a * 4 + b div 16]"
| "b64_decode _ = []"

definition js_btoa :: "string \<Rightarrow> string" where
  "js_btoa s = b64_encode (map of_char s)"

definition is_ascii_whitespace :: "char \<Rightarrow> bool" where
  "is_ascii_whitespace c = (c \<in> set [CHR 0x09, CHR 0x0A, CHR 0x0C, CHR 0x0D, CHR '' ''])"

definition strip_padding :: "string \<Rightarrow> string" where
  "strip_padding s =
     (if length s mod 4 = 0 \<and> s \<noteq> [] \<and> last s = CHR ''='' then
        (let s1 = butlast s
         in if s1 \<noteq> [] \<and> last s1 = CHR ''='' then butlast s1 else s1)
      else s)"

definition js_atob :: "string \<Rightarrow> string option" where
  "js_atob s =
     (let d = strip_padding (filter (\<lambda>c. \<not> is_ascii_whitespace c) s)
      in if length d mod 4 = 1 then None
         else if list_all (\<lambda>c. b64_index c \<noteq> None) d
         then Some (map char_of (b64_decode (map (\<lambda>c. the (b64_index c)) d)))
         else None)"


definition is_json_ws :: "char \<Rightarrow> bool" where
  "is_json_ws c = (c \<in> set [CHR '' '', CHR 0x09, CHR 0x0A, CHR 0x0D])"

definition skip_ws :: "string \<Rightarrow> string" where
  "skip_ws s = dropWhile is_json_ws s"

definition show_int :: "int \<Rightarrow> string" where
  "show_int i = (if i < 0 then CHR ''-'' # show_nat (nat (- i)) else show_nat (nat i))"

definition read_nat :: "string \<Rightarrow> nat" where
  "read_nat ds = foldl (\<lambda>acc c. 10 * acc + (of_char c - 48)) 0 ds"

definition hex_val :: "char \<Rightarrow> nat option" where
  "hex_val c =
     (let n = of_char c :: nat
      in if 48 \<le> n \<and> n \<le> 57 then Some (n - 48)
         else if 65 \<le> n \<and> n \<le> 70 then Some (n - 55)
         else if 97 \<le> n \<and> n \<le> 102 then Some (n - 87)
         else None)"

definition hex_char :: "nat \<Rightarrow> char" where
  "hex_char d = (if d < 10 then char_of (48 + d) else char_of (87 + d))"

definition unescape :: "char \<Rightarrow> char option" where
  "unescape e =
     (if e = CHR 0x22 then Some (CHR 0x22)
      else if e = CHR 0x5C then Some (CHR 0x5C)
      else if e = CHR ''/'' then Some (CHR ''/'')
      else if e = CHR ''b'' then Some (CHR 0x08)
      else if e = CHR ''f'' then Some (CHR 0x0C)
      else if e = CHR ''n'' then Some (CHR 0x0A)
      else if e = CHR ''r'' then Some (CHR 0x0D)
      else if e = CHR ''t'' then Some (CHR 0x09)
      else None)"

definition cons_fst :: "char \<Rightarrow> (string \<times> string) option \<Rightarrow> (string \<times> string) option" where
  "cons_fst c r = (case r of None \<Rightarrow> None | Some (s, rest) \<Rightarrow> Some (c # s, rest))"

fun parse_string_body :: "string \<Rightarrow> (string \<times> string) option" where
  "parse_string_body [] = None"
| "parse_string_body (c # cs) =
     (if c = CHR 0x22 then Some ([], cs)
      else if c = CHR 0x5C then
        (case cs of
           [] \<Rightarrow> None
         | e # r \<Rightarrow>
             (if e = CHR ''u'' then
                (case r of
                   h1 # h2 # h3 # h4 # r' \<Rightarrow>
                     (case (hex_val h1, hex_val h2, hex_val h3, hex_val h4) of
                        (Some a, Some b, Some c', Some d) \<Rightarrow>
                          (if a = 0 \<and> b = 0
                           then cons_fst (char_of (16 * c' + d)) (parse_string_body r')
                           else None)
                      | _ \<Rightarrow> None)
                 | _ \<Rightarrow> None)
              else
                (case unescape e of
                   None \<Rightarrow> None
                 | Some ch \<Rightarrow> cons_fst ch (parse_string_body r))))
      else if (of_char c :: nat) < 32 then None
      else cons_fst c (parse_string_body cs))"

definition parse_number :: "string \<Rightarrow> (jsval \<times> string) option" where
  "parse_number s =
     (let neg = (s \<noteq> [] \<and> hd s = CHR ''-'');
          body = (if neg then tl s else s);
          ds = takeWhile is_digit body;
          rest = dropWhile is_digit body
      in if ds = [] then None
         else if hd ds = CHR ''0'' \<and> length ds > 1 then None
         else if rest \<noteq> [] \<and> hd rest \<in> set [CHR ''.'', CHR ''e'', CHR ''E''] then None
         else Some (JNum (if neg then - int (read_nat ds) else int (read_nat ds)), rest))"

fun parse_value :: "nat \<Rightarrow> string \<Rightarrow> (jsval \<times> string) option"
  and parse_elements :: "nat \<Rightarrow> string \<Rightarrow> (jsval list \<times> string) option"
  and parse_members :: "nat \<Rightarrow> string \<Rightarrow> ((string \<times> jsval) list \<times> string) option" where
  "parse_value 0 s = None"
| "parse_value (Suc f) s =
     (case skip_ws s of
        [] \<Rightarrow> None
      | c # r \<Rightarrow>
          (if c = CHR ''{'' then
             (case skip_ws r of
                [] \<Rightarrow> None
              | c2 # r2 \<Rightarrow>
                  (if c2 = CHR ''}'' then Some (JObj [], r2)
                   else (case parse_members f r of
                           None \<Rightarrow> None
                         | Some (kvs, r3) \<Rightarrow> Some (JObj kvs, r3))))
           else if c = CHR ''['' then
             (case skip_ws r of
                [] \<Rightarrow> None
              | c2 # r2 \<Rightarrow>
                  (if c2 = CHR '']'' then Some (JArr [], r2)
                   else (case parse_elements f r of
                           None \<Rightarrow> None
                         | Some (vs, r3) \<Rightarrow> Some (JArr vs, r3))))
           else if c = CHR 0x22 then
             (case parse_string_body r of
                None \<Rightarrow> None
              | Some (str, r2) \<Rightarrow> Some (JStr str, r2))
           else if prefix ''true'' (c # r) then Some (JBool True, drop 4 (c # r))
           else if prefix ''false'' (c # r) then Some (JBool False, drop 5 (c # r))
           else if prefix ''null'' (c # r) then Some (JNull, drop 4 (c # r))
           else parse_number (c # r)))"
| "parse_elements 0 s = None"
| "parse_elements (Suc f) s =
     (case parse_value f s of
        None \<Rightarrow> None
      | Some (v, r) \<Rightarrow>
          (case skip_ws r of
             [] \<Rightarrow> None
           | c # r2 \<Rightarrow>
               (if c = CHR '','' then
                  (case parse_elements f r2 of
                     None \<Rightarrow> None
                   | Some (vs, r3) \<Rightarrow> Some (v # vs, r3))
                else if c = CHR '']'' then Some ([v], r2)
                else None)))"
| "parse_members 0 s = None"
| "parse_members (Suc f) s =
     (case skip_ws s of
        [] \<Rightarrow> None
      | q # r \<Rightarrow>
          (if q \<noteq> CHR 0x22 then None
           else
             (case parse_string_body r of
                None \<Rightarrow> None
              | Some (k, r1) \<Rightarrow>
                  (case skip_ws r1 of
                     [] \<Rightarrow> None
                   | col # r2 \<Rightarrow>
                       (if col \<noteq> CHR '':'' then None
                        else
                          (case parse_value f r2 of
                             None \<Rightarrow> None
                           | Some (v, r3) \<Rightarrow>
                               (case skip_ws r3 of
                                  [] \<Rightarrow> None
                                | c # r4 \<Rightarrow>
                                    (if c = CHR '','' then
                                       (case parse_members f r4 of
                                          None \<Rightarrow> None
                                        | Some (kvs, r5) \<Rightarrow> Some ((k, v) # kvs, r5))
                                     else if c = CHR ''}'' then Some ([(k, v)], r4)
                                     else None))))))))"

definition js_JSON_parse :: "string \<Rightarrow> jsval option" where
  "js_JSON_parse s =
     (case parse_value (Suc (length s)) s of
        None \<Rightarrow> None
      | Some (v, rest) \<Rightarrow> (if skip_ws rest = [] then Some v else None))"

definition escape_char :: "char \<Rightarrow> string" where
  "escape_char c =
     (if c = CHR 0x22 then [CHR 0x5C, CHR 0x22]
      else if c = CHR 0x5C then [CHR 0x5C, CHR 0x5C]
      else if c = CHR 0x08 then [CHR 0x5C, CHR ''b'']
      else if c = CHR 0x0C then [CHR 0x5C, CHR ''f'']
      else if c = CHR 0x0A then [CHR 0x5C, CHR ''n'']
      else if c = CHR 0x0D then [CHR 0x5C, CHR ''r'']
      else if c = CHR 0x09 then [CHR 0x5C, CHR ''t'']
      else if (of_char c :: nat) < 32 then
        [CHR 0x5C, CHR ''u'', CHR ''0'', CHR ''0'',
         hex_char ((of_char c :: nat) div 16), hex_char ((of_char c :: nat) mod 16)]
      else [c])"

definition quote :: "string \<Rightarrow> string" where
  "quote s = CHR 0x22 # concat (map escape_char s) @ [CHR 0x22]"

fun join_commas :: "string list \<Rightarrow> string" where
  "join_commas [] = []"
| "join_commas [x] = x"
| "join_commas (x # y # zs) = x @ CHR '','' # join_commas (y # zs)"

definition omitted :: "jsval \<Rightarrow> bool" where
  "omitted v = (v = JUndefined \<or> v = JFun)"

fun stringify_value :: "jsval \<Rightarrow> string"
  and stringify_elements :: "jsval list \<Rightarrow> string list"
  and stringify_members :: "(string \<times> jsval) list \<Rightarrow> string list" where
  "stringify_value JUndefined = ''null''"
| "stringify_value JFun = ''null''"
| "stringify_value JNull = ''null''"
| "stringify_value (JBool b) = (if b then ''true'' else ''false'')"
| "stringify_value (JNum n) = show_int n"
| "stringify_value (JStr s) = quote s"
| "stringify_value (JArr vs) = ''['' @ join_commas (stringify_elements vs) @ '']''"
| "stringify_value (JObj kvs) = ''{'' @ join_commas (stringify_members kvs) @ ''}''"
| "stringify_elements [] = []"
| "stringify_elements (v # vs) = stringify_value v # stringify_elements vs"
| "stringify_members [] = []"
| "stringify_members ((k, v) # kvs) =
     (if omitted v then stringify_members kvs
      else (quote k @ CHR '':'' # stringify_value v) # stringify_members kvs)"



text \<open>\<open>JSON.stringify(v, null, 2)\<close>: members and elements on lines of their own.\<close>

fun join_lines :: "string \<Rightarrow> string list \<Rightarrow> string" where
  "join_lines ind [] = []"
| "join_lines ind [x] = ind @ x"
| "join_lines ind (x # y # zs) = ind @ x @ CHR '','' # CHR 0x0A # join_lines ind (y # zs)"

fun pretty_value :: "nat \<Rightarrow> jsval \<Rightarrow> string"
  and pretty_elements :: "nat \<Rightarrow> jsval list \<Rightarrow> string list"
  and pretty_members :: "nat \<Rightarrow> (string \<times> jsval) list \<Rightarrow> string list" where
  "pretty_value n (JArr vs) =
     (if vs = [] then ''[]''
      else CHR ''['' # CHR 0x0A # join_lines (replicate (n + 2) CHR '' '') (pretty_elements (n + 2) vs)
           @ CHR 0x0A # replicate n CHR '' '' @ '']'')"
| "pretty_value n (JObj kvs) =
     (if pretty_members (n + 2) kvs = [] then ''{}''
      else CHR ''{'' # CHR 0x0A # join_lines (replicate (n + 2) CHR '' '') (pretty_members (n + 2) kvs)
           @ CHR 0x0A # replicate n CHR '' '' @ ''}'')"
| "pretty_value n JUndefined = ''null''"
| "pretty_value n JFun = ''null''"
| "pretty_value n JNull = ''null''"
| "pretty_value n (JBool b) = (if b then ''true'' else ''false'')"
| "pretty_value n (JNum i) = show_int i"
| "pretty_value n (JStr s) = quote s"
| "pretty_elements n [] = []"
| "pretty_elements n (v # vs) = pretty_value n v # pretty_elements n vs"
| "pretty_members n [] = []"
| "pretty_members n ((k, v) # kvs) =
     (if omitted v then pretty_members n kvs
      else (quote k @ '': '' @ pretty_value n v) # pretty_members n kvs)"

text \<open>
  \<open>String(v)\<close> and \<open>Number(v)\<close>. The numeric reading of a string covers decimal
  integers with surrounding blanks (the empty string is 0); anything else is \<open>NaN\<close>.
\<close>

fun js_ToString :: "jsval \<Rightarrow> string"
  and js_ToString_elements :: "jsval list \<Rightarrow> string list" where
  "js_ToString JUndefined = ''undefined''"
| "js_ToString JNull = ''null''"
| "js_ToString (JBool b) = (if b then ''true'' else ''false'')"
| "js_ToString (JNum i) = show_int i"
| "js_ToString (JStr s) = s"
| "js_ToString (JArr vs) = join_commas (js_ToString_elements vs)"
| "js_ToString (JObj kvs) = ''[object Object]''"
| "js_ToString JFun = ''function sub() { [native code] }''"
| "js_ToString_elements [] = []"
| "js_ToString_elements (v # vs) =
     (if v = JUndefined \<or> v = JNull then [] else js_ToString v) # js_ToString_elements vs"

definition string_to_number :: "string \<Rightarrow> int option" where
  "string_to_number s =
     (let t = rev (skip_ws (rev (skip_ws s)))
      in if t = [] then Some 0
         else (case parse_number (if hd t = CHR ''+'' then tl t else t) of
                 Some (JNum i, []) \<Rightarrow> Some i
               | _ \<Rightarrow> None))"

definition js_ToNumber :: "jsval \<Rightarrow> int option" where
  "js_ToNumber v =
     (case v of
        JNum i \<Rightarrow> Some i
      | JBool b \<Rightarrow> Some (if b then 1 else 0)
      | JNull \<Rightarrow> Some 0
      | JUndefined \<Rightarrow> None
      | JFun \<Rightarrow> None
      | _ \<Rightarrow> string_to_number (js_ToString v))"

definition js :: runtime where
  "js = \<lparr>atob = js_atob, btoa = js_btoa, JSON_parse = js_JSON_parse,
          JSON_stringify = stringify_value, JSON_stringify_indent2 = pretty_value 0,
          ToNumber = js_ToNumber, ToString = js_ToString\<rparr>"

section \<open>Concrete inputs\<close>

text \<open>
  Inputs on which the handlers are evaluated below: a data store that records the name
  of every action run against it, a token verifier that rejects every token and one
  that accepts every token, an identity and the session cookie issued for it at
  1700000000000 ms, an identity whose name has a letter outside Latin-1, an environment
  with and without a configured OAuth client, and requests to the authorization and
  logout endpoints.
\<close>

definition recording_actions :: "string list actions" where
  "recording_actions =
     \<lparr>searchUsers = (\<lambda>q db. (Inr [], db @ [''searchUsers''])),
      addUser = (\<lambda>d db. (Inl (Error ''Unique constraint failed''), db @ [''addUser''])),
      updateUser = (\<lambda>i d db. (Inl (Error ''User not found''), db @ [''updateUser''])),
      deleteUser = (\<lambda>i db. (Inr (), db @ [''deleteUser''])),
      getUserById = (\<lambda>i db. (Inr None, db @ [''getUserById'']))\<rparr>"

definition rejecting_verifier :: "string \<Rightarrow> exn + jsval" where
  "rejecting_verifier token = Inl (Error ''Invalid token'')"

definition accepting_verifier :: "string \<Rightarrow> exn + jsval" where
  "accepting_verifier token = Inr (JObj [(''user'', JObj [(''clientId'', JStr ''108'')])])"

text \<open>
  A stand-in for the validation library: an e-mail address is a text with an \<open>@\<close>, and
  a failing input is reported by one issue that names the schema.
\<close>

definition any_email :: "string \<Rightarrow> bool" where
  "any_email s = (CHR ''@'' \<in> set s)"

definition listing_issues :: "string \<Rightarrow> jsval \<Rightarrow> jsval" where
  "listing_issues schema_name input =
     JArr [JObj [(''code'', JStr ''custom''), (''path'', JArr []),
                 (''message'', JStr (''Input rejected by '' @ schema_name))]]"

definition listing_zod :: zod where
  "listing_zod = \<lparr>is_email = any_email, issues_of = listing_issues\<rparr>"

definition delete_call :: jsval where
  "delete_call =
     JObj [(''jsonrpc'', JStr ''2.0''), (''id'', JNum 7), (''method'', JStr ''tools/call''),
           (''params'', JObj [(''name'', JStr ''delete_user''),
                             (''arguments'', JObj [(''id'', JStr ''42'')])])]"

definition new_user_args :: jsval where
  "new_user_args =
     JObj [(''name'', JStr ''Ada Lovelace''), (''email'', JStr ''ada@example.com''),
           (''phoneNumber'', JStr ''0412345678'')]"

definition ada :: identity where
  "ada = \<lparr>id_sub = Latin1 ''108'', id_email = Some (Latin1 ''ada@example.com''),
           id_name = Some (Latin1 ''Ada'')\<rparr>"

text \<open>An identity whose name starts with the letter U+0141.\<close>

definition lukasz :: identity where
  "lukasz = \<lparr>id_sub = Latin1 ''109'', id_email = Some (Latin1 ''lukasz@example.com''),
              id_name = Some (Wide [321, 117, 107, 97, 115, 122])\<rparr>"

definition ada_cookie :: string where
  "ada_cookie = ''eyJzdWIiOiIxMDgiLCJlbWFpbCI6ImFkYUBleGFtcGxlLmNvbSIsIm5hbWUiOiJBZGEiLCJpYXQiOjE3MDAwMDAwMDAsImV4cCI6MTcwMDA4NjQwMH0=''"

definition ada_json :: string where
  "ada_json = ''{\"sub\":\"108\",\"email\":\"ada@example.com\",\"name\":\"Ada\",\"iat\":1700000000,\"exp\":1700086400}''"

definition ada_session :: jsval where
  "ada_session =
     JObj [(''sub'', JStr ''108''), (''email'', JStr ''ada@example.com''),
           (''name'', JStr ''Ada''), (''iat'', JNum 1700000000), (''exp'', JNum 1700086400)]"

definition every_url_ok :: "string \<Rightarrow> string \<Rightarrow> bool" where
  "every_url_ok input base = True"

definition no_logout_param :: "string \<Rightarrow> string \<Rightarrow> bool" where
  "no_logout_param input base = False"

definition no_query :: "string \<Rightarrow> string option" where
  "no_query k = None"

definition unconfigured :: env where
  "unconfigured =
     \<lparr>PRODUCTION_URL = None, NEXTAUTH_URL = None, VERCEL_URL = None, VERCEL_ENV = None,
      VERCEL_PROJECT_PRODUCTION_URL = None, NODE_ENV = None, PORT = None, HOST = None,
      GOOGLE_CLIENT_ID = None, GOOGLE_CLIENT_SECRET = None\<rparr>"

definition configured :: env where
  "configured =
     unconfigured\<lparr>GOOGLE_CLIENT_ID := Some ''web-client.apps.googleusercontent.com'',
                   GOOGLE_CLIENT_SECRET := Some ''s3cret''\<rparr>"

definition every_uri_parses :: "string \<Rightarrow> bool" where
  "every_uri_parses u = True"

definition double_slash_query :: "string \<Rightarrow> string option" where
  "double_slash_query =
     map_of [(''response_type'', ''code''),
             (''client_id'', ''web-client.apps.googleusercontent.com''),
             (''redirect_uri'', ''http://localhost:3000/api/auth/callback/google//'')]"

section \<open>Auxiliary notions for the round trip through the reference runtime\<close>

text \<open>The base64 text of a list of octets without its padding.\<close>

fun b64_body :: "nat list \<Rightarrow> string" where
  "b64_body (a # b # c # r) =
     [b64_char (a div 4), b64_char ((a mod 4) * 16 + b div 16),
      b64_char ((b mod 16) * 4 + c div 64), b64_char (c mod 64)] @ b64_body r"
| "b64_body [a, b] =
     [b64_char (a div 4), b64_char ((a mod 4) * 16 + b div 16),
      b64_char ((b mod 16) * 4)]"
| "b64_body [a] = [b64_char (a div 4), b64_char ((a mod 4) * 16)]"
| "b64_body [] = []"

text \<open>What may follow a number in the text of an object: nothing, a comma or a closing brace.\<close>

definition closes :: "string \<Rightarrow> bool" where
  "closes rest = (rest = [] \<or> hd rest = CHR '','' \<or> hd rest = CHR ''}'')"

text \<open>
  The values that the members of a session payload have, and the text of one member of
  an object.
\<close>

definition flat :: "jsval \<Rightarrow> bool" where
  "flat v = (case v of JStr s \<Rightarrow> True | JNum i \<Rightarrow> True | _ \<Rightarrow> False)"

definition member_text :: "string \<times> jsval \<Rightarrow> string" where
  "member_text kv = quote (fst kv) @ CHR '':'' # stringify_value (snd kv)"

section \<open>Token parameter validation is first-violation-wins\<close>

text \<open>
  C7. \<open>validateTokenParams\<close> is fail-fast: a grant type other than
  \<open>authorization_code\<close> gives the failure \<open>unsupported_grant_type\<close> whatever the other
  fields are; otherwise an absent (undefined or empty) code gives the failure
  \<open>invalid_request\<close> ("Missing authorization code") whatever the redirect URI is; otherwise
  an absent redirect URI gives the failure \<open>invalid_request\<close> ("Missing redirect_uri");
  otherwise validation succeeds, with no error code.
\<close>

theorem validateTokenParams_first_violation_wins:
  "(grant_type p \<noteq> ''authorization_code'' \<longrightarrow>
      validateTokenParams p =
        \<lparr>isValid = False, error = Some ''unsupported_grant_type'',
         errorDescription = Some ''Only authorization_code grant type is supported''\<rparr>)
   \<and> (grant_type p = ''authorization_code'' \<and> \<not> truthy (code p) \<longrightarrow>
      validateTokenParams p =
        \<lparr>isValid = False, error = Some ''invalid_request'',
         errorDescription = Some ''Missing authorization code''\<rparr>)
   \<and> (grant_type p = ''authorization_code'' \<and> truthy (code p) \<and> \<not> truthy (redirect_uri p) \<longrightarrow>
      validateTokenParams p =
        \<lparr>isValid = False, error = Some ''invalid_request'',
         errorDescription = Some ''Missing redirect_uri''\<rparr>)
   \<and> (grant_type p = ''authorization_code'' \<and> truthy (code p) \<and> truthy (redirect_uri p) \<longrightarrow>
      validateTokenParams p = \<lparr>isValid = True, error = None, errorDescription = None\<rparr>)"
  by (simp add: validateTokenParams_def)

theorem validateTokenParams_first_violation_wins_witness:
  "validateTokenParams
     \<lparr>grant_type = ''password'', code = None, redirect_uri = None, client_id = None,
      client_secret = None, code_verifier = None\<rparr>
     = \<lparr>isValid = False, error = Some ''unsupported_grant_type'',
       errorDescription = Some ''Only authorization_code grant type is supported''\<rparr>
   \<and> validateTokenParams
     \<lparr>grant_type = ''authorization_code'', code = Some [], redirect_uri = None,
      client_id = None, client_secret = None, code_verifier = None\<rparr>
     = \<lparr>isValid = False, error = Some ''invalid_request'',
       errorDescription = Some ''Missing authorization code''\<rparr>
   \<and> validateTokenParams
     \<lparr>grant_type = ''authorization_code'', code = Some ''c0de'', redirect_uri = None,
      client_id = None, client_secret = None, code_verifier = None\<rparr>
     = \<lparr>isValid = False, error = Some ''invalid_request'',
       errorDescription = Some ''Missing redirect_uri''\<rparr>
   \<and> validateTokenParams
     \<lparr>grant_type = ''authorization_code'', code = Some ''c0de'',
      redirect_uri = Some ''http://localhost:3000/api/auth/callback/google'',
      client_id = None, client_secret = None, code_verifier = None\<rparr>
     = \<lparr>isValid = True, error = None, errorDescription = None\<rparr>"
  using validateTokenParams_first_violation_wins
          [of "\<lparr>grant_type = ''password'', code = None, redirect_uri = None, client_id = None,
      client_secret = None, code_verifier = None\<rparr>"]
        validateTokenParams_first_violation_wins
          [of "\<lparr>grant_type = ''authorization_code'', code = Some [], redirect_uri = None,
      client_id = None, client_secret = None, code_verifier = None\<rparr>"]
        validateTokenParams_first_violation_wins
          [of "\<lparr>grant_type = ''authorization_code'', code = Some ''c0de'', redirect_uri = None,
      client_id = None, client_secret = None, code_verifier = None\<rparr>"]
        validateTokenParams_first_violation_wins
          [of "\<lparr>grant_type = ''authorization_code'', code = Some ''c0de'',
      redirect_uri = Some ''http://localhost:3000/api/auth/callback/google'',
      client_id = None, client_secret = None, code_verifier = None\<rparr>"]
  by (simp add: truthy_def)

section \<open>The token response hands out the upstream ID token\<close>

text \<open>
  C9. In every token response built by \<open>buildTokenResponse\<close>, \<open>access_token\<close> is the
  upstream \<open>id_token\<close> when that is present and non-empty, otherwise the upstream
  \<open>access_token\<close> when that is present and non-empty, otherwise the empty string;
  \<open>token_type\<close> is \<open>Bearer\<close>; and \<open>expires_in\<close> is the upstream value when present
  and non-zero, otherwise 3600.
\<close>

theorem buildTokenResponse_fields:
  "access_token (buildTokenResponse g sc fb) =
     (case gt_id_token g of
        Some (c # cs) \<Rightarrow> c # cs
      | _ \<Rightarrow> (case gt_access_token g of Some (c # cs) \<Rightarrow> c # cs | _ \<Rightarrow> []))
   \<and> token_type (buildTokenResponse g sc fb) = ''Bearer''
   \<and> expires_in (buildTokenResponse g sc fb) =
     (case gt_expires_in g of
        None \<Rightarrow> Some 3600
      | Some n \<Rightarrow> if n = 0 then Some 3600 else Some n)"
  by (simp add: buildTokenResponse_def truthy_def or_else_def
           split: option.splits list.splits)

theorem buildTokenResponse_fields_witness:
  "access_token (buildTokenResponse
      \<lparr>gt_access_token = Some ''ya29.a0'', gt_id_token = Some ''eyJhbGciOi'',
       gt_refresh_token = None, gt_expires_in = Some 0, gt_token_type = None,
       gt_scope = None\<rparr> None None) = ''eyJhbGciOi''
   \<and> expires_in (buildTokenResponse
      \<lparr>gt_access_token = Some ''ya29.a0'', gt_id_token = Some ''eyJhbGciOi'',
       gt_refresh_token = None, gt_expires_in = Some 0, gt_token_type = None,
       gt_scope = None\<rparr> None None) = Some 3600"
  using buildTokenResponse_fields
          [of "\<lparr>gt_access_token = Some ''ya29.a0'', gt_id_token = Some ''eyJhbGciOi'',
                gt_refresh_token = None, gt_expires_in = Some 0, gt_token_type = None,
                gt_scope = None\<rparr>" None None]
  by simp

section \<open>Evaluating the reference runtime on the concrete cookie\<close>

lemma digit_char_simps:
  "digit_char 0 = CHR ''0''" "digit_char (Suc 0) = CHR ''1''" "digit_char 2 = CHR ''2''"
  "digit_char 3 = CHR ''3''" "digit_char 4 = CHR ''4''" "digit_char 5 = CHR ''5''"
  "digit_char 6 = CHR ''6''" "digit_char 7 = CHR ''7''" "digit_char 8 = CHR ''8''"
  "digit_char 9 = CHR ''9''"
  by code_simp+

lemma ada_payload: "session_payload ada 1700000000000 1700000000000 = Some ada_session"
  by (simp add: session_payload_def claim_def ada_def ada_session_def)

lemma ada_stringify: "stringify_value ada_session = ada_json"
  by (simp add: ada_session_def ada_json_def omitted_def quote_def escape_char_def show_int_def
        digit_char_simps)

lemma ada_btoa: "js_btoa ada_json = ada_cookie"
  by code_simp

lemma ada_atob: "js_atob ada_cookie = Some ada_json"
  by code_simp

lemma ada_parse: "js_JSON_parse ada_json = Some ada_session"
  by (simp add: ada_json_def ada_session_def js_JSON_parse_def skip_ws_def is_json_ws_def
        cons_fst_def unescape_def parse_number_def is_digit_def read_nat_def)

lemma ada_cookie_issued: "sessionToken js ada 1700000000000 1700000000000 = Inr ada_cookie"
  by (simp add: sessionToken_def js_def ada_payload ada_stringify ada_btoa)

lemma ada_cookie_decodes: "decode_session js ada_cookie = Inr ada_session"
  by (simp add: decode_session_def js_def ada_atob ada_parse)

section \<open>Logout\<close>

lemma logout_GET_cases:
  "logout_GET URL_ok has_logout url sp =
     (if URL_ok (or_else (sp ''redirect'') ''/auth/login'') url then
        Inr \<lparr>status = 307, body = None,
             redirect = Some (Resolved (or_else (sp ''redirect'') ''/auth/login'') url
                                (if has_logout (or_else (sp ''redirect'') ''/auth/login'') url
                                 then [] else [(''logout'', ''success'')])),
             headers = [], deleted_cookies = []\<rparr>
      else if URL_ok ''/auth/login'' url then
        Inr \<lparr>status = 307, body = None, redirect = Some (Resolved ''/auth/login'' url []),
             headers = [], deleted_cookies = [''oauth_session'']\<rparr>
      else Inl TypeError)"
  by (simp add: logout_GET_def NextResponse_redirect_def cookies_delete_def Let_def)

text \<open>
  C8. Evaluation at the failing input \<open>GET /api/auth/logout\<close> (no \<open>redirect\<close> parameter):
  the response the handler returns is a redirect to \<open>/auth/login?logout=success\<close> that
  deletes no cookie, while the \<open>POST\<close> handler's response deletes \<open>oauth_session\<close>.
\<close>

theorem logout_GET_keeps_session_cookie:
  "logout_GET every_url_ok no_logout_param ''https://person-search-pearl.vercel.app/api/auth/logout''
      no_query
     = Inr \<lparr>status = 307, body = None,
            redirect = Some (Resolved ''/auth/login''
                               ''https://person-search-pearl.vercel.app/api/auth/logout''
                               [(''logout'', ''success'')]),
            headers = [], deleted_cookies = []\<rparr>
   \<and> deleted_cookies logout_POST = [''oauth_session'', ''oauth_state'', ''oauth_nonce'']"
  by (simp add: logout_GET_cases every_url_ok_def no_logout_param_def no_query_def or_else_def
        logout_POST_def cookies_delete_def NextResponse_json_def)

section \<open>Undecodable session cookies\<close>

text \<open>
  C5. When \<open>atob\<close> or \<open>JSON.parse\<close> throws on the cookie value, the session-status
  endpoint answers \<open>authenticated: false\<close> ("Invalid session format", status 200, cookie
  deleted) and the JSON-RPC authenticator answers not authenticated with status 401;
  no exception leaves either.
\<close>

theorem session_GET_undecodable:
  assumes "atob rt c = None \<or> (\<exists>s. atob rt c = Some s \<and> JSON_parse rt s = None)"
  shows "session_GET rt (Some c) now_ms =
           \<lparr>status = 200,
            body = Some (JObj [(''authenticated'', JBool False), (''user'', JNull),
                               (''message'', JStr ''Invalid session format'')]),
            redirect = None, headers = [], deleted_cookies = [''oauth_session'']\<rparr>
         \<and> authenticated (authenticate_session rt now_ms (Some c)) = False
         \<and> map_option status (errorResponse (authenticate_session rt now_ms (Some c))) = Some 401"
proof -
  from assms obtain e where d: "decode_session rt c = Inl e"
    by (auto simp: decode_session_def)
  show ?thesis
    by (simp add: session_GET_def session_try_def d authenticate_session_def auth_failure_def
          NextResponse_json_def cookies_delete_def session_status_body_def)
qed

theorem session_GET_undecodable_witness:
  "atob js ''not base64!'' = None
   \<and> deleted_cookies (session_GET js (Some ''not base64!'') 1700000000000) = [''oauth_session'']
   \<and> atob js ''bm90IGpzb24='' = Some ''not json''
   \<and> JSON_parse js ''not json'' = None
   \<and> status (session_GET js (Some ''bm90IGpzb24='') 1700000000000) = 200"
proof -
  have a: "atob js ''not base64!'' = None" by code_simp
  have b: "atob js ''bm90IGpzb24='' = Some ''not json''" by code_simp
  have c: "JSON_parse js ''not json'' = None" by code_simp
  from a have h1: "atob js ''not base64!'' = None
      \<or> (\<exists>s. atob js ''not base64!'' = Some s \<and> JSON_parse js s = None)" by simp
  from b c have h2: "atob js ''bm90IGpzb24='' = None
      \<or> (\<exists>s. atob js ''bm90IGpzb24='' = Some s \<and> JSON_parse js s = None)" by simp
  show ?thesis
    using session_GET_undecodable [OF h1, of 1700000000000]
          session_GET_undecodable [OF h2, of 1700000000000] a b c
    by simp
qed


section \<open>JSON-RPC calls without credentials\<close>

lemma authenticate_session_failure_shape:
  "\<not> authenticated (authenticate_session rt now_ms ck) \<Longrightarrow>
     \<exists>resp msg. errorResponse (authenticate_session rt now_ms ck) = Some resp
        \<and> status resp = 401
        \<and> body resp = Some (jsonrpc_error JNull (- 32603) msg)"
  by (auto simp: authenticate_session_def auth_failure_def auth_success_def NextResponse_json_def
           split: option.splits sum.splits if_splits)

text \<open>
  C2. A \<open>POST\<close> whose method is neither \<open>initialize\<close> nor \<open>tools/list\<close> and that carries
  neither an \<open>authorization\<close> header nor a session cookie is answered 401 with the
  JSON-RPC error code -32603, whatever the actions are, and the data store is unchanged.
\<close>

theorem POST_without_credentials:
  assumes "rpc_body request = Some b"
      and "get_prop b ''method'' = Inr method"
      and "method \<noteq> JStr ''initialize''" and "method \<noteq> JStr ''tools/list''"
      and "authorization request = None" and "oauth_session request = None"
  shows "POST rt verifyGoogleToken z acts MCP_TOOLS now_ms request db =
           (\<lparr>status = 401,
             body = Some (JObj [(''jsonrpc'', JStr ''2.0''), (''id'', JNull),
                                (''error'', JObj [(''code'', JNum (- 32603)),
                                   (''message'', JStr ''Unauthorized - Missing authorization header or session cookie'')])]),
             redirect = None,
             headers = WWW_Authenticate # createCORSHeaders CORS_CONFIGS_api,
             deleted_cookies = []\<rparr>, db)"
proof -
  have r: "requiresAuthentication method"
    using assms(3,4) by (simp add: requiresAuthentication_def)
  have a: "authenticateMCPRequest rt verifyGoogleToken now_ms request =
             auth_failure ''Missing authorization header or session cookie''
               (NextResponse_json
                  (jsonrpc_error JNull (- 32603)
                     ''Unauthorized - Missing authorization header or session cookie'')
                  401 (WWW_Authenticate # createCORSHeaders CORS_CONFIGS_api))"
    using assms(5,6)
    by (simp add: authenticateMCPRequest_def authenticate_session_def truthy_def headers_get_def)
  show ?thesis
    by (simp add: POST_def assms(1,2) r a auth_failure_def NextResponse_json_def jsonrpc_error_def)
qed

theorem POST_without_credentials_witness:
  "POST js rejecting_verifier listing_zod recording_actions (JArr []) 1700000000000
      \<lparr>authorization = None, oauth_session = None, rpc_body = Some delete_call\<rparr> []
   = (\<lparr>status = 401,
       body = Some (JObj [(''jsonrpc'', JStr ''2.0''), (''id'', JNull),
                          (''error'', JObj [(''code'', JNum (- 32603)),
                             (''message'', JStr ''Unauthorized - Missing authorization header or session cookie'')])]),
       redirect = None,
       headers = WWW_Authenticate # createCORSHeaders CORS_CONFIGS_api,
       deleted_cookies = []\<rparr>, [])"
proof -
  have m: "get_prop delete_call ''method'' = Inr (JStr ''tools/call'')"
    by (simp add: delete_call_def)
  show ?thesis
    by (rule POST_without_credentials [OF _ m]) simp_all
qed

section \<open>The tool dispatcher never throws\<close>

text \<open>
  C10. \<open>handleMCPTool\<close> always returns a serialised payload and never throws:
  a tool name outside the five known tools gives the "Unknown tool" payload and leaves
  the store alone; for each known tool, an input that is not an object or that has a
  field failing the tool's schema gives the \<open>success: false\<close> payload "Invalid input
  parameters" with the library's issues, and no action is run; and when the action of a
  known tool throws on a valid input, what it threw is turned into a \<open>success: false\<close>
  payload (the issues of a schema error, the message of an \<open>Error\<close>, "Unknown error
  occurred" otherwise).
\<close>

theorem handleMCPTool_total:
  "(\<exists>payload db'.
       handleMCPTool rt z acts toolName args usr db
         = (Inr (JSON_stringify_indent2 rt payload), db'))
   \<and> (toolName \<notin> set MCP_TOOL_NAMES \<longrightarrow>
        handleMCPTool rt z acts toolName args usr db
          = (Inr (JSON_stringify_indent2 rt
                    (JObj [(''success'', JBool False),
                           (''message'', JStr (''Unknown tool: '' @ toolName))])), db))
   \<and> (\<forall>schema_name checks.
        (toolName, schema_name, checks)
          \<in> set [(''search_users'', ''searchUsersSchema'', searchUsersSchema),
                  (''add_user'', ''addUserSchema'', addUserSchema z),
                  (''update_user'', ''updateUserSchema'', updateUserSchema z),
                  (''delete_user'', ''deleteUserSchema'', deleteUserSchema),
                  (''get_user_by_id'', ''getUserByIdSchema'', getUserByIdSchema)]
        \<and> (\<not> is_object args \<or> failing args checks \<noteq> []) \<longrightarrow>
        handleMCPTool rt z acts toolName args usr db
          = (Inr (JSON_stringify_indent2 rt
                    (JObj [(''success'', JBool False),
                           (''message'', JStr ''Invalid input parameters''),
                           (''errors'', issues_of z schema_name args)])), db))
   \<and> (\<forall>err db'.
        is_object args
        \<and> (toolName = ''search_users'' \<and> failing args searchUsersSchema = []
              \<and> searchUsers acts (the_string (object_field args ''query'')) db = (Inl err, db')
            \<or> toolName = ''add_user'' \<and> failing args (addUserSchema z) = []
              \<and> addUser acts [(''name'', object_field args ''name''),
                               (''email'', object_field args ''email''),
                               (''phoneNumber'', object_field args ''phoneNumber'')] db
                  = (Inl err, db')
            \<or> toolName = ''update_user'' \<and> failing args (updateUserSchema z) = []
              \<and> filter (\<lambda>(k, v). v \<noteq> JUndefined)
                    [(''name'', object_field args ''name''),
                     (''email'', object_field args ''email''),
                     (''phoneNumber'', object_field args ''phoneNumber'')] \<noteq> []
              \<and> updateUser acts (the_string (object_field args ''id''))
                    (filter (\<lambda>(k, v). v \<noteq> JUndefined)
                       [(''name'', object_field args ''name''),
                        (''email'', object_field args ''email''),
                        (''phoneNumber'', object_field args ''phoneNumber'')]) db
                  = (Inl err, db')
            \<or> toolName = ''delete_user'' \<and> failing args deleteUserSchema = []
              \<and> deleteUser acts (the_string (object_field args ''id'')) db = (Inl err, db')
            \<or> toolName = ''get_user_by_id'' \<and> failing args getUserByIdSchema = []
              \<and> getUserById acts (the_string (object_field args ''id'')) db = (Inl err, db'))
        \<longrightarrow>
        handleMCPTool rt z acts toolName args usr db
          = (Inr (JSON_stringify_indent2 rt
                    (case err of
                       ZodError issues \<Rightarrow>
                         JObj [(''success'', JBool False),
                               (''message'', JStr ''Invalid input parameters''),
                               (''errors'', issues)]
                     | Error msg \<Rightarrow>
                         JObj [(''success'', JBool False), (''message'', JStr msg)]
                     | Thrown v \<Rightarrow>
                         JObj [(''success'', JBool False),
                               (''message'', JStr ''Unknown error occurred'')])), db'))"
proof (intro conjI)
  show "(\<exists>payload db'.
       handleMCPTool rt z acts toolName args usr db
         = (Inr (JSON_stringify_indent2 rt payload), db'))"
    by (cases "handleMCPTool_try z acts toolName args usr db")
       (auto simp: handleMCPTool_def split: sum.splits)
next
  show "(toolName \<notin> set MCP_TOOL_NAMES \<longrightarrow>
        handleMCPTool rt z acts toolName args usr db
          = (Inr (JSON_stringify_indent2 rt
                    (JObj [(''success'', JBool False),
                           (''message'', JStr (''Unknown tool: '' @ toolName))])), db))"
    by (simp add: handleMCPTool_def handleMCPTool_try_def MCP_TOOL_NAMES_def failure_payload_def)
next
  show "(\<forall>schema_name checks.
        (toolName, schema_name, checks)
          \<in> set [(''search_users'', ''searchUsersSchema'', searchUsersSchema),
                  (''add_user'', ''addUserSchema'', addUserSchema z),
                  (''update_user'', ''updateUserSchema'', updateUserSchema z),
                  (''delete_user'', ''deleteUserSchema'', deleteUserSchema),
                  (''get_user_by_id'', ''getUserByIdSchema'', getUserByIdSchema)]
        \<and> (\<not> is_object args \<or> failing args checks \<noteq> []) \<longrightarrow>
        handleMCPTool rt z acts toolName args usr db
          = (Inr (JSON_stringify_indent2 rt
                    (JObj [(''success'', JBool False),
                           (''message'', JStr ''Invalid input parameters''),
                           (''errors'', issues_of z schema_name args)])), db))"
    by (auto simp: handleMCPTool_def handleMCPTool_try_def zod_parse_def handleMCPTool_catch_def)
next
  show "(\<forall>err db'.
        is_object args
        \<and> (toolName = ''search_users'' \<and> failing args searchUsersSchema = []
              \<and> searchUsers acts (the_string (object_field args ''query'')) db = (Inl err, db')
            \<or> toolName = ''add_user'' \<and> failing args (addUserSchema z) = []
              \<and> addUser acts [(''name'', object_field args ''name''),
                               (''email'', object_field args ''email''),
                               (''phoneNumber'', object_field args ''phoneNumber'')] db
                  = (Inl err, db')
            \<or> toolName = ''update_user'' \<and> failing args (updateUserSchema z) = []
              \<and> filter (\<lambda>(k, v). v \<noteq> JUndefined)
                    [(''name'', object_field args ''name''),
                     (''email'', object_field args ''email''),
                     (''phoneNumber'', object_field args ''phoneNumber'')] \<noteq> []
              \<and> updateUser acts (the_string (object_field args ''id''))
                    (filter (\<lambda>(k, v). v \<noteq> JUndefined)
                       [(''name'', object_field args ''name''),
                        (''email'', object_field args ''email''),
                        (''phoneNumber'', object_field args ''phoneNumber'')]) db
                  = (Inl err, db')
            \<or> toolName = ''delete_user'' \<and> failing args deleteUserSchema = []
              \<and> deleteUser acts (the_string (object_field args ''id'')) db = (Inl err, db')
            \<or> toolName = ''get_user_by_id'' \<and> failing args getUserByIdSchema = []
              \<and> getUserById acts (the_string (object_field args ''id'')) db = (Inl err, db'))
        \<longrightarrow>
        handleMCPTool rt z acts toolName args usr db
          = (Inr (JSON_stringify_indent2 rt
                    (case err of
                       ZodError issues \<Rightarrow>
                         JObj [(''success'', JBool False),
                               (''message'', JStr ''Invalid input parameters''),
                               (''errors'', issues)]
                     | Error msg \<Rightarrow>
                         JObj [(''success'', JBool False), (''message'', JStr msg)]
                     | Thrown v \<Rightarrow>
                         JObj [(''success'', JBool False),
                               (''message'', JStr ''Unknown error occurred'')])), db'))"
    by (auto simp: handleMCPTool_def handleMCPTool_try_def zod_parse_def handleMCPTool_catch_def
          failure_payload_def Let_def split: exn.splits)
qed

lemma new_user_args_pass:
  "is_object new_user_args \<and> failing new_user_args (addUserSchema listing_zod) = []"
proof -
  have p: "phone_ok (JStr ''0412345678'')" by code_simp
  have m: "any_email ''ada@example.com''" by (simp add: any_email_def)
  show ?thesis
    by (simp add: is_object_def failing_def addUserSchema_def new_user_args_def
          object_field_def name_ok_def email_field_ok_def listing_zod_def p m)
qed

lemma numeric_id_fails:
  "failing (JObj [(''id'', JNum 42)]) deleteUserSchema = [''id'']"
  by (simp add: failing_def deleteUserSchema_def object_field_def string_ok_def)

lemma add_user_throws:
  "addUser recording_actions
     [(''name'', object_field new_user_args ''name''),
      (''email'', object_field new_user_args ''email''),
      (''phoneNumber'', object_field new_user_args ''phoneNumber'')] []
     = (Inl (Error ''Unique constraint failed''), [''addUser''])"
  by (simp add: recording_actions_def)

theorem handleMCPTool_total_witness:
  "handleMCPTool js listing_zod recording_actions ''drop_table'' (JObj []) JUndefined []
     = (Inr (JSON_stringify_indent2 js
               (JObj [(''success'', JBool False),
                      (''message'', JStr ''Unknown tool: drop_table'')])), [])
   \<and> handleMCPTool js listing_zod recording_actions ''delete_user'' (JObj [(''id'', JNum 42)])
       JUndefined []
     = (Inr (JSON_stringify_indent2 js
               (JObj [(''success'', JBool False),
                      (''message'', JStr ''Invalid input parameters''),
                      (''errors'',
                       issues_of listing_zod ''deleteUserSchema'' (JObj [(''id'', JNum 42)]))])),
        [])
   \<and> handleMCPTool js listing_zod recording_actions ''search_users'' (JStr ''ada'') JUndefined []
     = (Inr (JSON_stringify_indent2 js
               (JObj [(''success'', JBool False),
                      (''message'', JStr ''Invalid input parameters''),
                      (''errors'', issues_of listing_zod ''searchUsersSchema'' (JStr ''ada''))])),
        [])
   \<and> handleMCPTool js listing_zod recording_actions ''add_user'' new_user_args JUndefined []
     = (Inr (JSON_stringify_indent2 js
               (JObj [(''success'', JBool False),
                      (''message'', JStr ''Unique constraint failed'')])), [''addUser''])"
proof -
  from handleMCPTool_total [of js listing_zod recording_actions "''drop_table''" "JObj []"
          JUndefined "[]"]
  have 1: "handleMCPTool js listing_zod recording_actions ''drop_table'' (JObj []) JUndefined []
     = (Inr (JSON_stringify_indent2 js
               (JObj [(''success'', JBool False),
                      (''message'', JStr ''Unknown tool: drop_table'')])), [])"
    by (simp add: MCP_TOOL_NAMES_def)
  from handleMCPTool_total [of js listing_zod recording_actions "''delete_user''"
          "JObj [(''id'', JNum 42)]" JUndefined "[]"]
  have 2: "handleMCPTool js listing_zod recording_actions ''delete_user''
       (JObj [(''id'', JNum 42)]) JUndefined []
     = (Inr (JSON_stringify_indent2 js
               (JObj [(''success'', JBool False),
                      (''message'', JStr ''Invalid input parameters''),
                      (''errors'',
                       issues_of listing_zod ''deleteUserSchema'' (JObj [(''id'', JNum 42)]))])),
        [])"
    by (simp add: numeric_id_fails)
  from handleMCPTool_total [of js listing_zod recording_actions "''search_users''"
          "JStr ''ada''" JUndefined "[]"]
  have 3: "handleMCPTool js listing_zod recording_actions ''search_users'' (JStr ''ada'')
       JUndefined []
     = (Inr (JSON_stringify_indent2 js
               (JObj [(''success'', JBool False),
                      (''message'', JStr ''Invalid input parameters''),
                      (''errors'', issues_of listing_zod ''searchUsersSchema'' (JStr ''ada''))])),
        [])"
    by (simp add: is_object_def)
  from handleMCPTool_total [of js listing_zod recording_actions "''add_user''" new_user_args
          JUndefined "[]"]
       new_user_args_pass add_user_throws
  have 4: "handleMCPTool js listing_zod recording_actions ''add_user'' new_user_args JUndefined []
     = (Inr (JSON_stringify_indent2 js
               (JObj [(''success'', JBool False),
                      (''message'', JStr ''Unique constraint failed'')])), [''addUser''])"
    by simp
  from 1 2 3 4 show ?thesis by blast
qed

section \<open>Bearer header and session cookie\<close>

lemma http_trim_last:
  assumes "http_trim s \<noteq> []"
  shows "\<not> is_http_whitespace (last (http_trim s))"
proof -
  let ?u = "dropWhile is_http_whitespace (rev (dropWhile is_http_whitespace s))"
  from assms have ne: "?u \<noteq> []" by (simp add: http_trim_def)
  then have "\<not> is_http_whitespace (hd ?u)" by (rule hd_dropWhile)
  moreover from ne have "last (rev ?u) = hd ?u" by (simp add: last_rev)
  ultimately show ?thesis by (simp add: http_trim_def)
qed

text \<open>
  A header value that \<open>headers_get\<close> hands over and that is not empty never leaves an
  empty token: the value \<open>Bearer\<close> followed by blanks arrives as \<open>Bearer\<close>, which is its own
  token.
\<close>

lemma bearer_token_not_empty:
  assumes "headers_get field = Some h" and "h \<noteq> []"
  shows "bearer_token h \<noteq> []"
proof (cases "prefix ''Bearer '' h")
  case False
  with assms(2) show ?thesis by (simp add: bearer_token_def)
next
  case True
  from assms(1) obtain s where h: "h = http_trim s"
    by (auto simp: headers_get_def)
  with assms(2) http_trim_last [of s] have l: "last h \<noteq> CHR '' ''"
    by (auto simp: is_http_whitespace_def)
  from True obtain r where r: "h = ''Bearer '' @ r" by (auto simp: prefix_def)
  have "r \<noteq> []"
  proof
    assume "r = []"
    with r have "last h = CHR '' ''" by simp
    with l show False by simp
  qed
  with r show ?thesis by (simp add: bearer_token_def)
qed

text \<open>
  C1, as stated, fails: a bearer token that upstream verification rejects leads on to the
  session cookie, and a valid cookie then authenticates the request.
\<close>

theorem bearer_failure_falls_through_counterexample:
  "authenticateMCPRequest js rejecting_verifier 1700000001000
     \<lparr>authorization = Some ''Bearer stale-token'', oauth_session = Some ada_cookie,
      rpc_body = None\<rparr>
   = auth_success (session_userInfo ada_session)"
  by (simp add: authenticateMCPRequest_def truthy_def rejecting_verifier_def headers_get_def
        http_trim_def is_http_whitespace_def bearer_token_def
        authenticate_session_def ada_cookie_decodes js_less_def ada_session_def)

text \<open>
  C1, amended. The session cookie alone decides when the \<open>authorization\<close> header is
  absent or empty, and also when the header's token (the header value as the platform
  hands it over, without a leading \<open>Bearer \<close>) fails upstream verification: the verifier
  throws or returns a falsy value. A token that verifies authenticates without the
  cookie. Every failure is a 401 with JSON-RPC code -32603.
\<close>

theorem authenticateMCPRequest_paths:
  "(\<not> truthy (headers_get (authorization request)) \<longrightarrow>
      authenticateMCPRequest rt verifyGoogleToken now_ms request
        = authenticate_session rt now_ms (oauth_session request))
   \<and> (\<forall>h. headers_get (authorization request) = Some h \<and> h \<noteq> [] \<longrightarrow>
        (case verifyGoogleToken (bearer_token h) of
           Inl err \<Rightarrow>
             authenticateMCPRequest rt verifyGoogleToken now_ms request
               = authenticate_session rt now_ms (oauth_session request)
         | Inr userInfo \<Rightarrow>
             authenticateMCPRequest rt verifyGoogleToken now_ms request
               = (if js_truthy userInfo then auth_success (opt_prop userInfo ''user'')
                  else authenticate_session rt now_ms (oauth_session request))))
   \<and> (\<not> authenticated (authenticateMCPRequest rt verifyGoogleToken now_ms request) \<longrightarrow>
        (\<exists>resp msg.
           errorResponse (authenticateMCPRequest rt verifyGoogleToken now_ms request) = Some resp
           \<and> status resp = 401
           \<and> body resp = Some (jsonrpc_error JNull (- 32603) msg)))"
proof (intro conjI)
  show "\<not> truthy (headers_get (authorization request)) \<longrightarrow>
      authenticateMCPRequest rt verifyGoogleToken now_ms request
        = authenticate_session rt now_ms (oauth_session request)"
    by (simp add: authenticateMCPRequest_def)
next
  show "\<forall>h. headers_get (authorization request) = Some h \<and> h \<noteq> [] \<longrightarrow>
        (case verifyGoogleToken (bearer_token h) of
           Inl err \<Rightarrow>
             authenticateMCPRequest rt verifyGoogleToken now_ms request
               = authenticate_session rt now_ms (oauth_session request)
         | Inr userInfo \<Rightarrow>
             authenticateMCPRequest rt verifyGoogleToken now_ms request
               = (if js_truthy userInfo then auth_success (opt_prop userInfo ''user'')
                  else authenticate_session rt now_ms (oauth_session request)))"
  proof (intro allI impI)
    fix h
    assume a: "headers_get (authorization request) = Some h \<and> h \<noteq> []"
    then have ne: "bearer_token h \<noteq> []"
      using bearer_token_not_empty [of "authorization request" h] by simp
    show "(case verifyGoogleToken (bearer_token h) of
           Inl err \<Rightarrow>
             authenticateMCPRequest rt verifyGoogleToken now_ms request
               = authenticate_session rt now_ms (oauth_session request)
         | Inr userInfo \<Rightarrow>
             authenticateMCPRequest rt verifyGoogleToken now_ms request
               = (if js_truthy userInfo then auth_success (opt_prop userInfo ''user'')
                  else authenticate_session rt now_ms (oauth_session request)))"
      using a ne
      by (auto simp: authenticateMCPRequest_def truthy_def Let_def split: sum.splits)
  qed
next
  show "\<not> authenticated (authenticateMCPRequest rt verifyGoogleToken now_ms request) \<longrightarrow>
        (\<exists>resp msg.
           errorResponse (authenticateMCPRequest rt verifyGoogleToken now_ms request) = Some resp
           \<and> status resp = 401
           \<and> body resp = Some (jsonrpc_error JNull (- 32603) msg))"
  proof
    assume na: "\<not> authenticated (authenticateMCPRequest rt verifyGoogleToken now_ms request)"
    have "authenticateMCPRequest rt verifyGoogleToken now_ms request
            = auth_failure ''Invalid authorization header format''
                (NextResponse_json
                   (jsonrpc_error JNull (- 32603) ''Unauthorized - Invalid token format'')
                   401 (WWW_Authenticate # createCORSHeaders CORS_CONFIGS_api))
          \<or> authenticateMCPRequest rt verifyGoogleToken now_ms request
            = authenticate_session rt now_ms (oauth_session request)
          \<or> authenticated (authenticateMCPRequest rt verifyGoogleToken now_ms request)"
      by (simp add: authenticateMCPRequest_def Let_def auth_success_def split: sum.splits)
    then show "\<exists>resp msg.
           errorResponse (authenticateMCPRequest rt verifyGoogleToken now_ms request) = Some resp
           \<and> status resp = 401
           \<and> body resp = Some (jsonrpc_error JNull (- 32603) msg)"
    proof (elim disjE)
      assume e: "authenticateMCPRequest rt verifyGoogleToken now_ms request
            = auth_failure ''Invalid authorization header format''
                (NextResponse_json
                   (jsonrpc_error JNull (- 32603) ''Unauthorized - Invalid token format'')
                   401 (WWW_Authenticate # createCORSHeaders CORS_CONFIGS_api))"
      show ?thesis
        by (auto simp: e auth_failure_def NextResponse_json_def)
    next
      assume e: "authenticateMCPRequest rt verifyGoogleToken now_ms request
            = authenticate_session rt now_ms (oauth_session request)"
      with na authenticate_session_failure_shape [of rt now_ms "oauth_session request"]
      show ?thesis by simp
    next
      assume "authenticated (authenticateMCPRequest rt verifyGoogleToken now_ms request)"
      with na show ?thesis by simp
    qed
  qed
qed

theorem authenticateMCPRequest_paths_witness:
  "authenticateMCPRequest js rejecting_verifier 1700000001000
     \<lparr>authorization = None, oauth_session = Some ada_cookie, rpc_body = None\<rparr>
   = authenticate_session js 1700000001000 (Some ada_cookie)
   \<and> authenticateMCPRequest js rejecting_verifier 1700000001000
     \<lparr>authorization = Some ''Bearer stale-token'', oauth_session = None, rpc_body = None\<rparr>
   = authenticate_session js 1700000001000 None
   \<and> authenticateMCPRequest js accepting_verifier 1700000001000
     \<lparr>authorization = Some ''Bearer fresh-token'', oauth_session = None, rpc_body = None\<rparr>
   = auth_success (JObj [(''clientId'', JStr ''108'')])
   \<and> (\<exists>resp msg.
         errorResponse (authenticateMCPRequest js rejecting_verifier 1700000001000
           \<lparr>authorization = None, oauth_session = None, rpc_body = None\<rparr>) = Some resp
         \<and> status resp = 401
         \<and> body resp = Some (jsonrpc_error JNull (- 32603) msg))"
proof -
  have na: "\<not> authenticated (authenticateMCPRequest js rejecting_verifier 1700000001000
           \<lparr>authorization = None, oauth_session = None, rpc_body = None\<rparr>)"
    by (simp add: authenticateMCPRequest_def truthy_def authenticate_session_def auth_failure_def
          headers_get_def)
  have hs: "headers_get (Some ''Bearer stale-token'') = Some ''Bearer stale-token''"
    by (simp add: headers_get_def http_trim_def is_http_whitespace_def)
  have hf: "headers_get (Some ''Bearer fresh-token'') = Some ''Bearer fresh-token''"
    by (simp add: headers_get_def http_trim_def is_http_whitespace_def)
  have ts: "bearer_token ''Bearer stale-token'' = ''stale-token''"
    by (simp add: bearer_token_def)
  have tf: "bearer_token ''Bearer fresh-token'' = ''fresh-token''"
    by (simp add: bearer_token_def)
  have rj: "rejecting_verifier ''stale-token'' = Inl (Error ''Invalid token'')"
    by (simp add: rejecting_verifier_def)
  have ac: "accepting_verifier ''fresh-token''
              = Inr (JObj [(''user'', JObj [(''clientId'', JStr ''108'')])])"
    by (simp add: accepting_verifier_def)
  from authenticateMCPRequest_paths
          [where request = "\<lparr>authorization = None, oauth_session = Some ada_cookie,
                             rpc_body = None\<rparr>"
             and rt = js and verifyGoogleToken = rejecting_verifier and now_ms = 1700000001000]
  have 1: "authenticateMCPRequest js rejecting_verifier 1700000001000
     \<lparr>authorization = None, oauth_session = Some ada_cookie, rpc_body = None\<rparr>
   = authenticate_session js 1700000001000 (Some ada_cookie)"
    by (simp add: truthy_def headers_get_def)
  from authenticateMCPRequest_paths
          [where request = "\<lparr>authorization = Some ''Bearer stale-token'', oauth_session = None,
                             rpc_body = None\<rparr>"
             and rt = js and verifyGoogleToken = rejecting_verifier and now_ms = 1700000001000]
  have 2: "authenticateMCPRequest js rejecting_verifier 1700000001000
     \<lparr>authorization = Some ''Bearer stale-token'', oauth_session = None, rpc_body = None\<rparr>
   = authenticate_session js 1700000001000 None"
    by (simp add: hs ts rj)
  from authenticateMCPRequest_paths
          [where request = "\<lparr>authorization = Some ''Bearer fresh-token'', oauth_session = None,
                             rpc_body = None\<rparr>"
             and rt = js and verifyGoogleToken = accepting_verifier and now_ms = 1700000001000]
  have 3: "authenticateMCPRequest js accepting_verifier 1700000001000
     \<lparr>authorization = Some ''Bearer fresh-token'', oauth_session = None, rpc_body = None\<rparr>
   = auth_success (JObj [(''clientId'', JStr ''108'')])"
    by (simp add: hf tf ac opt_prop_def)
  from authenticateMCPRequest_paths
          [where request = "\<lparr>authorization = None, oauth_session = None, rpc_body = None\<rparr>"
             and rt = js and verifyGoogleToken = rejecting_verifier and now_ms = 1700000001000]
       na
  have 4: "\<exists>resp msg.
         errorResponse (authenticateMCPRequest js rejecting_verifier 1700000001000
           \<lparr>authorization = None, oauth_session = None, rpc_body = None\<rparr>) = Some resp
         \<and> status resp = 401
         \<and> body resp = Some (jsonrpc_error JNull (- 32603) msg)"
    by blast
  from 1 2 3 4 show ?thesis by blast
qed

section \<open>Base64 and JSON of the reference runtime are inverted by their decoders\<close>

declare show_nat.simps [simp del]

lemma b64_index_char: "n < 64 \<Longrightarrow> b64_index (b64_char n) = Some n"
  by (auto simp: b64_index_def b64_char_def Let_def)

lemma b64_char_valid: "b64_index (b64_char n) \<noteq> None"
  by (auto simp: b64_index_def b64_char_def Let_def)

lemma b64_char_indexed: "\<exists>y. b64_index (b64_char n) = Some y"
  using b64_char_valid [of n] by auto

lemma b64_char_not_pad: "b64_char n \<noteq> CHR ''=''"
proof
  assume "b64_char n = CHR ''=''"
  then have "b64_index (b64_char n) = b64_index (CHR ''='')" by simp
  with b64_char_valid [of n] show False by (simp add: b64_index_def)
qed

lemma b64_char_not_ws: "\<not> is_ascii_whitespace (b64_char n)"
proof
  assume "is_ascii_whitespace (b64_char n)"
  then have "b64_index (b64_char n) = None"
    by (auto simp: is_ascii_whitespace_def b64_index_def)
  with b64_char_valid [of n] show False by simp
qed

lemma b64_encode_length: "length (b64_encode bs) mod 4 = 0"
  by (induction bs rule: b64_encode.induct) simp_all

lemma b64_encode_no_ws: "filter (\<lambda>c. \<not> is_ascii_whitespace c) (b64_encode bs) = b64_encode bs"
  by (induction bs rule: b64_encode.induct)
     (simp_all add: b64_char_not_ws, simp_all add: is_ascii_whitespace_def)

lemma strip_padding_append:
  assumes "length xs = 4" and "e \<noteq> []" and "length e mod 4 = 0"
  shows "strip_padding (xs @ e) = xs @ strip_padding e"
proof -
  from assms(2) have "length e \<noteq> 0" by simp
  with assms(3) have l: "length e \<ge> 4" by presburger
  then have b: "butlast e \<noteq> []" by (cases e rule: rev_cases) auto
  have m: "length (xs @ e) mod 4 = 0" using assms(1,3) by simp
  show ?thesis
    using assms(2) b m assms(3)
    by (simp add: strip_padding_def Let_def butlast_append last_append)
qed

lemma strip_padding_encode: "strip_padding (b64_encode bs) = b64_body bs"
proof (induction bs rule: b64_encode.induct)
  case (1 a b c r)
  show ?case
  proof (cases "r = []")
    case True
    then show ?thesis by (simp add: strip_padding_def b64_char_not_pad)
  next
    case False
    then have ne: "b64_encode r \<noteq> []" by (cases r rule: b64_encode.cases) simp_all
    have "strip_padding ([b64_char (a div 4), b64_char ((a mod 4) * 16 + b div 16),
      b64_char ((b mod 16) * 4 + c div 64), b64_char (c mod 64)] @ b64_encode r)
       = [b64_char (a div 4), b64_char ((a mod 4) * 16 + b div 16),
      b64_char ((b mod 16) * 4 + c div 64), b64_char (c mod 64)] @ strip_padding (b64_encode r)"
      by (rule strip_padding_append) (simp_all add: ne b64_encode_length)
    with 1 show ?thesis by simp
  qed
next
  case (2 a b)
  then show ?case by (simp add: strip_padding_def b64_char_not_pad)
next
  case (3 a)
  then show ?case by (simp add: strip_padding_def b64_char_not_pad)
next
  case 4
  then show ?case by (simp add: strip_padding_def)
qed

lemma b64_body_length: "length (b64_body bs) mod 4 \<noteq> 1"
  by (induction bs rule: b64_body.induct) simp_all

lemma b64_body_valid: "list_all (\<lambda>c. b64_index c \<noteq> None) (b64_body bs)"
  by (induction bs rule: b64_body.induct) (simp_all add: b64_char_indexed)

lemma sextets:
  fixes a b c :: nat
  shows "a < 256 \<Longrightarrow> a div 4 < 64"
    and "b < 256 \<Longrightarrow> (a mod 4) * 16 + b div 16 < 64"
    and "c < 256 \<Longrightarrow> (b mod 16) * 4 + c div 64 < 64"
    and "c mod 64 < 64" and "(b mod 16) * 4 < 64" and "(a mod 4) * 16 < 64"
proof -
  have m4: "a mod 4 < 4" and m16: "b mod 16 < 16" by simp_all
  show "a < 256 \<Longrightarrow> a div 4 < 64" by (simp add: less_mult_imp_div_less)
  show "b < 256 \<Longrightarrow> (a mod 4) * 16 + b div 16 < 64"
  proof -
    assume "b < 256"
    then have "b div 16 < 16" by (simp add: less_mult_imp_div_less)
    with m4 show ?thesis by linarith
  qed
  show "c < 256 \<Longrightarrow> (b mod 16) * 4 + c div 64 < 64"
  proof -
    assume "c < 256"
    then have "c div 64 < 4" by (simp add: less_mult_imp_div_less)
    with m16 show ?thesis by linarith
  qed
  show "c mod 64 < 64" by simp
  from m16 show "(b mod 16) * 4 < 64" by linarith
  from m4 show "(a mod 4) * 16 < 64" by linarith
qed

lemma octets:
  fixes a b c :: nat
  assumes "b < 256" "c < 256"
  shows "a div 4 * 4 + ((a mod 4) * 16 + b div 16) div 16 = a"
        "(((a mod 4) * 16 + b div 16) mod 16) * 16 + ((b mod 16) * 4 + c div 64) div 4 = b"
        "(((b mod 16) * 4 + c div 64) mod 4) * 64 + c mod 64 = c"
        "(((a mod 4) * 16 + b div 16) mod 16) * 16 + ((b mod 16) * 4) div 4 = b"
        "a div 4 * 4 + ((a mod 4) * 16) div 16 = a"
proof -
  have b: "b div 16 < 16" using assms(1) by (simp add: less_mult_imp_div_less)
  have c: "c div 64 < 4" using assms(2) by (simp add: less_mult_imp_div_less)
  show "a div 4 * 4 + ((a mod 4) * 16 + b div 16) div 16 = a" using b by simp
  show "(((a mod 4) * 16 + b div 16) mod 16) * 16 + ((b mod 16) * 4 + c div 64) div 4 = b"
    using b c by simp
  show "(((b mod 16) * 4 + c div 64) mod 4) * 64 + c mod 64 = c" using c by simp
  show "(((a mod 4) * 16 + b div 16) mod 16) * 16 + ((b mod 16) * 4) div 4 = b" using b by simp
  show "a div 4 * 4 + ((a mod 4) * 16) div 16 = a" by simp
qed

lemma b64_decode_body:
  "list_all (\<lambda>n. n < 256) bs \<Longrightarrow>
     b64_decode (map (\<lambda>c. the (b64_index c)) (b64_body bs)) = bs"
proof (induction bs rule: b64_body.induct)
  case (1 a b c r)
  then have ab: "a < 256" "b < 256" "c < 256" and r: "list_all (\<lambda>n. n < 256) r"
    by simp_all
  have i: "the (b64_index (b64_char (a div 4))) = a div 4"
          "the (b64_index (b64_char ((a mod 4) * 16 + b div 16))) = (a mod 4) * 16 + b div 16"
          "the (b64_index (b64_char ((b mod 16) * 4 + c div 64))) = (b mod 16) * 4 + c div 64"
          "the (b64_index (b64_char (c mod 64))) = c mod 64"
    by (simp_all add: b64_index_char sextets ab)
  have "b64_decode (map (\<lambda>c. the (b64_index c)) (b64_body (a # b # c # r)))
          = [a div 4 * 4 + ((a mod 4) * 16 + b div 16) div 16,
             (((a mod 4) * 16 + b div 16) mod 16) * 16 + ((b mod 16) * 4 + c div 64) div 4,
             (((b mod 16) * 4 + c div 64) mod 4) * 64 + c mod 64]
            @ b64_decode (map (\<lambda>c. the (b64_index c)) (b64_body r))"
    by (simp only: b64_body.simps map_append list.map b64_decode.simps append_Cons append_Nil i)
  also have "\<dots> = [a, b, c] @ r"
    by (simp only: octets [OF ab(2,3)] "1.IH" [OF r])
  finally show ?case by simp
next
  case (2 a b)
  then have ab: "a < 256" "b < 256" by simp_all
  have i: "the (b64_index (b64_char (a div 4))) = a div 4"
          "the (b64_index (b64_char ((a mod 4) * 16 + b div 16))) = (a mod 4) * 16 + b div 16"
          "the (b64_index (b64_char ((b mod 16) * 4))) = (b mod 16) * 4"
    by (simp_all add: b64_index_char sextets ab)
  have "b64_decode (map (\<lambda>c. the (b64_index c)) (b64_body [a, b]))
          = [a div 4 * 4 + ((a mod 4) * 16 + b div 16) div 16,
             (((a mod 4) * 16 + b div 16) mod 16) * 16 + ((b mod 16) * 4) div 4]"
    by (simp only: b64_body.simps list.map b64_decode.simps i)
  also have "\<dots> = [a, b]"
    by (simp only: octets [OF ab(2) ab(2)])
  finally show ?case .
next
  case (3 a)
  then have ab: "a < 256" by simp
  have i: "the (b64_index (b64_char (a div 4))) = a div 4"
          "the (b64_index (b64_char ((a mod 4) * 16))) = (a mod 4) * 16"
    by (simp_all add: b64_index_char sextets ab)
  have "b64_decode (map (\<lambda>c. the (b64_index c)) (b64_body [a]))
          = [a div 4 * 4 + ((a mod 4) * 16) div 16]"
    by (simp only: b64_body.simps list.map b64_decode.simps i)
  also have "\<dots> = [a]"
    by (simp only: octets [OF ab ab])
  finally show ?case .
next
  case 4
  then show ?case by simp
qed

lemma js_atob_btoa: "js_atob (js_btoa s) = Some s"
proof -
  let ?bs = "map of_char s :: nat list"
  have b: "list_all (\<lambda>n. n < 256) ?bs"
    by (simp add: list_all_iff)
  have m: "map char_of ?bs = s"
    by (simp add: comp_def)
  have d: "strip_padding (filter (\<lambda>c. \<not> is_ascii_whitespace c) (b64_encode ?bs)) = b64_body ?bs"
    by (simp only: b64_encode_no_ws strip_padding_encode)
  have "js_atob (js_btoa s)
          = Some (map char_of (b64_decode (map (\<lambda>c. the (b64_index c)) (b64_body ?bs))))"
    unfolding js_atob_def js_btoa_def Let_def d
    by (simp only: b64_body_length b64_body_valid if_False if_True)
  also have "\<dots> = Some s"
    by (simp only: b64_decode_body [OF b] m)
  finally show ?thesis .
qed

lemma hex_val_char: "d < 16 \<Longrightarrow> hex_val (hex_char d) = Some d"
  by (auto simp: hex_val_def hex_char_def Let_def)

lemma parse_escape:
  "parse_string_body (escape_char c @ tail) = cons_fst c (parse_string_body tail)"
proof -
  consider (q) "c = CHR 0x22" | (b) "c = CHR 0x5C" | (bs) "c = CHR 0x08" | (ff) "c = CHR 0x0C"
    | (nl) "c = CHR 0x0A" | (cr) "c = CHR 0x0D" | (tb) "c = CHR 0x09"
    | (ctl) "c \<notin> set [CHR 0x22, CHR 0x5C, CHR 0x08, CHR 0x0C, CHR 0x0A, CHR 0x0D, CHR 0x09]"
            "(of_char c :: nat) < 32"
    | (pl) "c \<notin> set [CHR 0x22, CHR 0x5C, CHR 0x08, CHR 0x0C, CHR 0x0A, CHR 0x0D, CHR 0x09]"
            "\<not> (of_char c :: nat) < 32"
    by auto
  then show ?thesis
  proof cases
    case q then show ?thesis by (simp add: escape_char_def unescape_def)
  next
    case b then show ?thesis by (simp add: escape_char_def unescape_def)
  next
    case bs then show ?thesis by (simp add: escape_char_def unescape_def)
  next
    case ff then show ?thesis by (simp add: escape_char_def unescape_def)
  next
    case nl then show ?thesis by (simp add: escape_char_def unescape_def)
  next
    case cr then show ?thesis by (simp add: escape_char_def unescape_def)
  next
    case tb then show ?thesis by (simp add: escape_char_def unescape_def)
  next
    case ctl
    let ?n = "of_char c :: nat"
    have h: "hex_val (hex_char (?n div 16)) = Some (?n div 16)"
            "hex_val (hex_char (?n mod 16)) = Some (?n mod 16)"
      using ctl(2) by (simp_all add: hex_val_char)
    have z: "hex_val CHR ''0'' = Some 0" by (simp add: hex_val_def)
    have e: "escape_char c = [CHR 0x5C, CHR ''u'', CHR ''0'', CHR ''0'',
               hex_char (?n div 16), hex_char (?n mod 16)]"
      using ctl by (simp add: escape_char_def)
    have r: "char_of (16 * (?n div 16) + ?n mod 16) = c" by simp
    show ?thesis by (simp add: e h z r)
  next
    case pl
    then have e: "escape_char c = [c]" by (simp add: escape_char_def)
    from pl show ?thesis by (simp add: e)
  qed
qed

lemma parse_string_body_escaped:
  "parse_string_body (concat (map escape_char s) @ CHR 0x22 # rest) = Some (s, rest)"
  by (induction s) (simp_all add: parse_escape cons_fst_def)

lemma digit_char_digit: "d < 10 \<Longrightarrow> is_digit (digit_char d)"
  by (simp add: is_digit_def digit_char_def)

lemma digit_char_value: "d < 10 \<Longrightarrow> (of_char (digit_char d) :: nat) - 48 = d"
  by (simp add: digit_char_def)

lemma digit_char_zero: "d < 10 \<Longrightarrow> digit_char d = CHR ''0'' \<longleftrightarrow> d = 0"
proof -
  assume d: "d < 10"
  have "digit_char d = CHR ''0'' \<longleftrightarrow> (of_char (digit_char d) :: nat) = of_char (CHR ''0'')"
    by (simp only: of_char_eq_iff)
  also have "\<dots> \<longleftrightarrow> d = 0" using d by (simp add: digit_char_def)
  finally show ?thesis .
qed

lemma show_nat_digits: "list_all is_digit (show_nat n)"
proof (induction n rule: show_nat.induct)
  case (1 n)
  show ?case
  proof (cases "n < 10")
    case True
    then have "show_nat n = [digit_char n]" by (subst show_nat.simps) simp
    with True show ?thesis by (simp add: digit_char_digit)
  next
    case False
    with 1 have "list_all is_digit (show_nat (n div 10))" by simp
    moreover have "is_digit (digit_char (n mod 10))" by (simp add: digit_char_digit)
    moreover from False have "show_nat n = show_nat (n div 10) @ [digit_char (n mod 10)]"
      by (subst show_nat.simps) simp
    ultimately show ?thesis by simp
  qed
qed

lemma show_nat_not_empty: "show_nat n \<noteq> []"
  by (subst show_nat.simps) simp

lemma read_nat_snoc: "read_nat (ds @ [d]) = 10 * read_nat ds + (of_char d - 48)"
  by (simp add: read_nat_def)

lemma read_show_nat: "read_nat (show_nat n) = n"
proof (induction n rule: show_nat.induct)
  case (1 n)
  show ?case
  proof (cases "n < 10")
    case True
    then have "show_nat n = [digit_char n]" by (subst show_nat.simps) simp
    with True show ?thesis by (simp add: read_nat_def digit_char_value)
  next
    case False
    with 1 have ih: "read_nat (show_nat (n div 10)) = n div 10" by simp
    from False have "show_nat n = show_nat (n div 10) @ [digit_char (n mod 10)]"
      by (subst show_nat.simps) simp
    then show ?thesis by (simp add: read_nat_snoc ih digit_char_value)
  qed
qed

lemma show_nat_hd: "0 < n \<Longrightarrow> hd (show_nat n) \<noteq> CHR ''0''"
proof (induction n rule: show_nat.induct)
  case (1 n)
  show ?case
  proof (cases "n < 10")
    case True
    then have "show_nat n = [digit_char n]" by (subst show_nat.simps) simp
    with True 1(2) show ?thesis by (simp add: digit_char_zero)
  next
    case False
    then have p: "0 < n div 10" by simp
    from False have "show_nat n = show_nat (n div 10) @ [digit_char (n mod 10)]"
      by (subst show_nat.simps) simp
    then have "hd (show_nat n) = hd (show_nat (n div 10))"
      by (simp add: show_nat_not_empty)
    with 1(1) [OF False p] show ?thesis by simp
  qed
qed

lemma show_nat_zero: "show_nat 0 = ''0''"
  by (subst show_nat.simps) (simp add: digit_char_simps)

lemma show_nat_no_leading_zero: "\<not> (hd (show_nat n) = CHR ''0'' \<and> length (show_nat n) > 1)"
proof (cases "n = 0")
  case True
  then show ?thesis by (simp add: show_nat_zero)
next
  case False
  then show ?thesis using show_nat_hd [of n] by simp
qed

lemma closes_not_digit: "closes rest \<Longrightarrow> rest = [] \<or> \<not> is_digit (hd rest)"
  by (auto simp: closes_def is_digit_def)

lemma takeWhile_digits:
  assumes "closes rest"
  shows "takeWhile is_digit (show_nat n @ rest) = show_nat n"
    and "dropWhile is_digit (show_nat n @ rest) = rest"
proof -
  have a: "\<And>x. x \<in> set (show_nat n) \<Longrightarrow> is_digit x"
    using show_nat_digits [of n] by (simp add: list_all_iff)
  from closes_not_digit [OF assms] have r: "takeWhile is_digit rest = []" "dropWhile is_digit rest = rest"
    by (cases rest; auto)+
  show "takeWhile is_digit (show_nat n @ rest) = show_nat n"
    using a r by (simp add: takeWhile_append2)
  show "dropWhile is_digit (show_nat n @ rest) = rest"
    using a r by (simp add: dropWhile_append2)
qed

lemma show_nat_hd_digit: "is_digit (hd (show_nat n))"
  using show_nat_digits [of n] show_nat_not_empty [of n]
  by (cases "show_nat n") simp_all

lemma parse_number_nat:
  assumes "closes rest"
  shows "parse_number (show_nat n @ rest) = Some (JNum (int n), rest)"
proof -
  have h: "hd (show_nat n @ rest) = hd (show_nat n)" by (simp add: show_nat_not_empty)
  have nm: "hd (show_nat n) \<noteq> CHR ''-''"
    using show_nat_hd_digit [of n] by (auto simp: is_digit_def)
  have c: "rest = [] \<or> (hd rest \<noteq> CHR ''.'' \<and> hd rest \<noteq> CHR ''e'' \<and> hd rest \<noteq> CHR ''E'')"
    using assms by (auto simp: closes_def)
  show ?thesis
    using show_nat_no_leading_zero [of n] c
    by (simp add: parse_number_def Let_def h nm takeWhile_digits [OF assms] show_nat_not_empty
          read_show_nat)
qed

lemma parse_number_negative:
  assumes "closes rest"
  shows "parse_number (CHR ''-'' # show_nat n @ rest) = Some (JNum (- int n), rest)"
proof -
  have c: "rest = [] \<or> (hd rest \<noteq> CHR ''.'' \<and> hd rest \<noteq> CHR ''e'' \<and> hd rest \<noteq> CHR ''E'')"
    using assms by (auto simp: closes_def)
  show ?thesis
    using show_nat_no_leading_zero [of n] c
    by (simp add: parse_number_def Let_def takeWhile_digits [OF assms] show_nat_not_empty
          read_show_nat)
qed

lemma parse_number_int:
  assumes "closes rest"
  shows "parse_number (show_int i @ rest) = Some (JNum i, rest)"
  by (simp add: show_int_def parse_number_nat [OF assms] parse_number_negative [OF assms])

lemma show_int_start:
  "\<exists>c r. show_int i = c # r \<and> (is_digit c \<or> c = CHR ''-'')"
proof (cases "i < 0")
  case True
  then show ?thesis by (simp add: show_int_def)
next
  case False
  obtain c r where e: "show_nat (nat i) = c # r"
    using show_nat_not_empty [of "nat i"] by (cases "show_nat (nat i)") auto
  with show_nat_hd_digit [of "nat i"] have "is_digit c" by simp
  with e False show ?thesis by (simp add: show_int_def)
qed

lemma parse_value_string:
  "parse_value (Suc f) (quote s @ rest) = Some (JStr s, rest)"
  by (simp add: quote_def skip_ws_def is_json_ws_def parse_string_body_escaped)

lemma parse_value_number:
  assumes "closes rest"
  shows "parse_value (Suc f) (show_int i @ rest) = Some (JNum i, rest)"
proof -
  from show_int_start [of i] obtain c r
    where e: "show_int i = c # r" and d: "is_digit c \<or> c = CHR ''-''" by blast
  from d have n: "c \<noteq> CHR ''{''" "c \<noteq> CHR ''[''" "c \<noteq> CHR 0x22" "c \<noteq> CHR ''t''"
      "c \<noteq> CHR ''f''" "c \<noteq> CHR ''n''" "\<not> is_json_ws c"
    by (auto simp: is_digit_def is_json_ws_def)
  have p: "parse_number (c # r @ rest) = Some (JNum i, rest)"
    using parse_number_int [OF assms, of i] by (simp add: e)
  show ?thesis
    using n by (simp add: e skip_ws_def p)
qed

lemma parse_value_flat:
  assumes "flat v" and "closes rest"
  shows "parse_value (Suc f) (stringify_value v @ rest) = Some (v, rest)"
proof (cases v)
  case (JNum i)
  then show ?thesis
    using parse_value_number [OF assms(2), of f i] by (simp del: parse_value.simps)
next
  case (JStr s)
  then show ?thesis
    using parse_value_string [of f s rest] by (simp del: parse_value.simps)
qed (use assms(1) in \<open>simp_all add: flat_def\<close>)

lemma stringify_members_filter:
  "stringify_members kvs = map member_text (filter (\<lambda>(k, v). \<not> omitted v) kvs)"
  by (induction kvs) (auto simp: member_text_def)

lemma member_text_start:
  "member_text (k, v) @ tail
     = CHR 0x22 # concat (map escape_char k) @ CHR 0x22 # CHR '':'' # stringify_value v @ tail"
  by (simp add: member_text_def quote_def)

lemma parse_members_flat:
  "kvs \<noteq> [] \<Longrightarrow> list_all (\<lambda>(k, v). flat v) kvs \<Longrightarrow> length kvs < f \<Longrightarrow>
     parse_members f (join_commas (map member_text kvs) @ CHR ''}'' # rest) = Some (kvs, rest)"
proof (induction kvs arbitrary: f)
  case Nil
  then show ?case by simp
next
  case (Cons kv kvs)
  obtain k v where kv: "kv = (k, v)" by (cases kv)
  from Cons.prems(2) kv have fv: "flat v" by simp
  from Cons.prems(3) obtain f1 where f: "f = Suc (Suc f1)" and l: "length kvs \<le> f1"
    by (cases f; cases "f - 1") auto
  show ?case
  proof (cases kvs)
    case Nil
    have c: "closes (CHR ''}'' # rest)" by (simp add: closes_def)
    have j: "join_commas (map member_text (kv # kvs)) @ CHR ''}'' # rest
               = member_text (k, v) @ CHR ''}'' # rest"
      by (simp add: Nil kv)
    show ?thesis
      unfolding j f
      apply (subst parse_members.simps)
      apply (simp del: parse_value.simps parse_members.simps
               add: Nil kv member_text_start skip_ws_def is_json_ws_def
                 parse_string_body_escaped parse_value_flat [OF fv c])
      done
  next
    case (Cons kv2 more)
    let ?tail = "join_commas (map member_text kvs) @ CHR ''}'' # rest"
    have c: "closes (CHR '','' # ?tail)" by (simp add: closes_def)
    have j: "join_commas (map member_text (kv # kvs)) @ CHR ''}'' # rest
               = member_text (k, v) @ CHR '','' # ?tail"
      by (simp add: Cons kv)
    have ih: "parse_members (Suc f1) ?tail = Some (kvs, rest)"
      using Cons.IH [of "Suc f1"] Cons.prems(2) l Cons by simp
    show ?thesis
      unfolding j f
      apply (subst parse_members.simps)
      apply (simp del: parse_value.simps parse_members.simps
               add: member_text_start skip_ws_def is_json_ws_def
                 parse_string_body_escaped parse_value_flat [OF fv c] ih kv)
      done
  qed
qed

lemma join_commas_length:
  "list_all (\<lambda>x. x \<noteq> []) xs \<Longrightarrow> length xs \<le> length (join_commas xs)"
proof (induction xs rule: join_commas.induct)
  case (3 x y zs)
  then have "length (y # zs) \<le> length (join_commas (y # zs))" by simp
  moreover from 3 have "length x \<ge> 1" by (cases x) simp_all
  ultimately show ?case by simp
qed (simp_all add: Suc_le_eq)

lemma member_text_not_empty: "member_text kv \<noteq> []"
  by (simp add: member_text_def quote_def)

lemma parse_value_object:
  assumes "parse_members F (CHR 0x22 # b) = Some (kvs, rest)"
  shows "parse_value (Suc F) (CHR ''{'' # CHR 0x22 # b) = Some (JObj kvs, rest)"
  apply (subst parse_value.simps)
  apply (simp del: parse_value.simps parse_members.simps add: skip_ws_def is_json_ws_def assms)
  done

lemma js_JSON_parse_flat_object:
  assumes a: "list_all (\<lambda>(k, v). flat v) (filter (\<lambda>(k, v). \<not> omitted v) kvs)"
      and n: "filter (\<lambda>(k, v). \<not> omitted v) kvs \<noteq> []"
  shows "js_JSON_parse (stringify_value (JObj kvs))
           = Some (JObj (filter (\<lambda>(k, v). \<not> omitted v) kvs))"
proof -
  let ?kvs = "filter (\<lambda>(k, v). \<not> omitted v) kvs"
  let ?body = "join_commas (map member_text ?kvs)"
  have t: "stringify_value (JObj kvs) = CHR ''{'' # ?body @ ''}''"
    by (simp add: stringify_members_filter)
  have "length (map member_text ?kvs) \<le> length ?body"
    by (rule join_commas_length) (simp add: list_all_iff member_text_not_empty)
  then have l: "length ?kvs < length (CHR ''{'' # ?body @ ''}'')" by simp
  have p: "parse_members (length (CHR ''{'' # ?body @ ''}'')) (?body @ CHR ''}'' # [])
             = Some (?kvs, [])"
    by (rule parse_members_flat [OF n a l])
  obtain kv more where c: "?kvs = kv # more" using n by (cases ?kvs) auto
  obtain b where s: "?body @ ''}'' = CHR 0x22 # b"
  proof (cases more)
    case Nil
    with c have "?body @ ''}'' = member_text (fst kv, snd kv) @ ''}''" by simp
    then show ?thesis using that by (simp only: member_text_start)
  next
    case (Cons kv2 more2)
    with c have "?body @ ''}''
        = member_text (fst kv, snd kv) @ CHR '','' # join_commas (map member_text more) @ ''}''"
      by simp
    then show ?thesis using that by (simp only: member_text_start)
  qed
  have "parse_value (Suc (length (CHR ''{'' # ?body @ ''}''))) (CHR ''{'' # CHR 0x22 # b)
          = Some (JObj ?kvs, [])"
    by (rule parse_value_object) (use p s in simp)
  then have "parse_value (Suc (length (CHR ''{'' # ?body @ ''}''))) (CHR ''{'' # ?body @ ''}'')
          = Some (JObj ?kvs, [])"
    by (simp only: s)
  then show ?thesis
    by (simp only: js_JSON_parse_def t) (simp add: skip_ws_def)
qed

declare show_nat.simps [simp]

section \<open>Session round trip\<close>

lemma decode_issued:
  assumes "list_all (\<lambda>(k, v). flat v) (filter (\<lambda>(k, v). \<not> omitted v) kvs)"
      and "filter (\<lambda>(k, v). \<not> omitted v) kvs \<noteq> []"
  shows "decode_session js (btoa js (JSON_stringify js (JObj kvs)))
           = Inr (JObj (filter (\<lambda>(k, v). \<not> omitted v) kvs))"
  by (simp add: decode_session_def js_def js_atob_btoa js_JSON_parse_flat_object [OF assms]
        del: stringify_value.simps)

lemma issued_payload:
  assumes "id_sub userInfo = Latin1 s" and "id_email userInfo = map_option Latin1 e"
      and "id_name userInfo = map_option Latin1 n"
  shows "session_payload userInfo now1 now2 = Some (JObj [(''sub'', JStr s),
       (''email'', (case e of None \<Rightarrow> JUndefined | Some x \<Rightarrow> JStr x)),
       (''name'', (case n of None \<Rightarrow> JUndefined | Some x \<Rightarrow> JStr x)),
       (''iat'', JNum (now1 div 1000)),
       (''exp'', JNum (now2 div 1000 + 86400))])"
  using assms by (simp add: session_payload_def claim_def split: option.splits)

text \<open>
  A claim with a code unit above \<open>0xFF\<close>: no token is made and the callback sets no
  cookie.
\<close>

lemma wide_name_not_issued:
  "sessionToken rt lukasz now1 now2 = Inl (Error ''InvalidCharacterError'')
   \<and> callback_session_cookie rt e lukasz now1 now2 = Inl (Error ''InvalidCharacterError'')"
  by (simp add: callback_session_cookie_def sessionToken_def session_payload_def claim_def
        lukasz_def)

text \<open>
  C3, as stated, fails at the boundary: at the very second \<open>exp\<close> the cookie issued a day
  earlier is still valid.
\<close>

theorem session_valid_at_expiry_counterexample:
  "sessionToken js ada 1700000000000 1700000000000 = Inr ada_cookie
   \<and> session_GET js (Some ada_cookie) 1700086400000
   = \<lparr>status = 200,
      body = Some (JObj [(''authenticated'', JBool True),
                         (''user'', JObj [(''sub'', JStr ''108''),
                                          (''email'', JStr ''ada@example.com''),
                                          (''name'', JStr ''Ada''),
                                          (''exp'', JNum 1700086400)]),
                         (''message'', JStr ''Session valid'')]),
      redirect = None, headers = [], deleted_cookies = []\<rparr>"
  by (simp add: ada_cookie_issued session_GET_def session_try_def ada_cookie_decodes
        js_less_def NextResponse_json_def session_status_body_def opt_prop_def ada_session_def)

text \<open>
  C3, amended. The code has no \<open>ttl\<close> parameter: a session lives 86400 seconds from the
  second reading of the clock, \<open>exp = floor(now2 / 1000) + 86400\<close>. For every identity
  whose \<open>sub\<close>, \<open>email\<close> and \<open>name\<close> are within Latin-1 (\<open>email\<close> and \<open>name\<close> may be
  missing) a token is issued, and validating that token at time \<open>t\<close> answers
  \<open>authenticated: true\<close> with these claims unchanged whenever \<open>floor(t / 1000) \<le> exp\<close>
  (the second \<open>exp\<close> included), and \<open>authenticated: false\<close> ("Session expired") whenever
  \<open>floor(t / 1000) > exp\<close> (for a clock that is not before 1970, so that \<open>exp\<close> is not
  the falsy 0). The runtime is the reference runtime.
\<close>

theorem session_round_trip:
  assumes s: "id_sub userInfo = Latin1 s"
      and e: "id_email userInfo = map_option Latin1 e"
      and n: "id_name userInfo = map_option Latin1 n"
  shows "\<exists>token. sessionToken js userInfo now1 now2 = Inr token
           \<and> (\<forall>t. t div 1000 \<le> now2 div 1000 + 86400 \<longrightarrow>
                 session_GET js (Some token) t =
                   \<lparr>status = 200,
                    body = Some (JObj [(''authenticated'', JBool True),
                                       (''user'', JObj [(''sub'', JStr s),
                                                        (''email'', (case e of None \<Rightarrow> JUndefined | Some x \<Rightarrow> JStr x)),
                                                        (''name'', (case n of None \<Rightarrow> JUndefined | Some x \<Rightarrow> JStr x)),
                                                        (''exp'', JNum (now2 div 1000 + 86400))]),
                                       (''message'', JStr ''Session valid'')]),
                    redirect = None, headers = [], deleted_cookies = []\<rparr>)
           \<and> (\<forall>t. 0 \<le> now2 \<and> now2 div 1000 + 86400 < t div 1000 \<longrightarrow>
                 session_GET js (Some token) t =
                   \<lparr>status = 200,
                    body = Some (JObj [(''authenticated'', JBool False), (''user'', JNull),
                                       (''message'', JStr ''Session expired'')]),
                    redirect = None, headers = [], deleted_cookies = []\<rparr>)"
proof -
  define kvs where "kvs = [(''sub'', JStr s),
       (''email'', (case e of None \<Rightarrow> JUndefined | Some x \<Rightarrow> JStr x)),
       (''name'', (case n of None \<Rightarrow> JUndefined | Some x \<Rightarrow> JStr x)),
       (''iat'', JNum (now1 div 1000)),
       (''exp'', JNum (now2 div 1000 + 86400))]"
  define data where "data = JObj (filter (\<lambda>(k, v). \<not> omitted v) kvs)"
  define token where "token = btoa js (JSON_stringify js (JObj kvs))"
  have t: "sessionToken js userInfo now1 now2 = Inr token"
    by (simp add: sessionToken_def issued_payload [OF s e n] token_def kvs_def)
  have f: "list_all (\<lambda>(k, v). flat v) (filter (\<lambda>(k, v). \<not> omitted v) kvs)"
          "filter (\<lambda>(k, v). \<not> omitted v) kvs \<noteq> []"
    by (cases e; cases n; simp add: kvs_def omitted_def flat_def)+
  have d: "decode_session js token = Inr data"
    unfolding token_def data_def by (rule decode_issued [OF f])
  have x: "get_prop data ''exp'' = Inr (JNum (now2 div 1000 + 86400))"
    by (cases e; cases n; simp add: data_def kvs_def omitted_def)
  have c: "opt_prop data ''sub'' = JStr s"
          "opt_prop data ''email'' = (case e of None \<Rightarrow> JUndefined | Some x \<Rightarrow> JStr x)"
          "opt_prop data ''name'' = (case n of None \<Rightarrow> JUndefined | Some x \<Rightarrow> JStr x)"
    by (cases e; cases n; simp add: data_def kvs_def omitted_def opt_prop_def)+
  have pos: "0 \<le> now2 \<Longrightarrow> now2 div 1000 + 86400 \<noteq> 0"
  proof -
    assume "0 \<le> now2"
    then have "0 \<le> now2 div 1000" by simp
    then show ?thesis by arith
  qed
  have v: "\<forall>t. t div 1000 \<le> now2 div 1000 + 86400 \<longrightarrow>
                 session_GET js (Some token) t =
                   \<lparr>status = 200,
                    body = Some (JObj [(''authenticated'', JBool True),
                                       (''user'', JObj [(''sub'', JStr s),
                                                        (''email'', (case e of None \<Rightarrow> JUndefined | Some x \<Rightarrow> JStr x)),
                                                        (''name'', (case n of None \<Rightarrow> JUndefined | Some x \<Rightarrow> JStr x)),
                                                        (''exp'', JNum (now2 div 1000 + 86400))]),
                                       (''message'', JStr ''Session valid'')]),
                    redirect = None, headers = [], deleted_cookies = []\<rparr>"
    by (simp add: session_GET_def session_try_def d x c js_less_def Let_def
          NextResponse_json_def session_status_body_def)
  have w: "\<forall>t. 0 \<le> now2 \<and> now2 div 1000 + 86400 < t div 1000 \<longrightarrow>
                 session_GET js (Some token) t =
                   \<lparr>status = 200,
                    body = Some (JObj [(''authenticated'', JBool False), (''user'', JNull),
                                       (''message'', JStr ''Session expired'')]),
                    redirect = None, headers = [], deleted_cookies = []\<rparr>"
    using pos
    by (simp add: session_GET_def session_try_def d x c js_less_def Let_def
          NextResponse_json_def session_status_body_def)
  from t v w show ?thesis by blast
qed

theorem session_round_trip_witness:
  "sessionToken js ada 1700000000000 1700000000000 = Inr ada_cookie
   \<and> session_GET js (Some ada_cookie) 1700086400999 =
     \<lparr>status = 200,
      body = Some (JObj [(''authenticated'', JBool True),
                         (''user'', JObj [(''sub'', JStr ''108''),
                                          (''email'', JStr ''ada@example.com''),
                                          (''name'', JStr ''Ada''),
                                          (''exp'', JNum 1700086400)]),
                         (''message'', JStr ''Session valid'')]),
      redirect = None, headers = [], deleted_cookies = []\<rparr>
   \<and> session_GET js (Some ada_cookie) 1700086401000 =
     \<lparr>status = 200,
      body = Some (JObj [(''authenticated'', JBool False), (''user'', JNull),
                         (''message'', JStr ''Session expired'')]),
      redirect = None, headers = [], deleted_cookies = []\<rparr>"
proof -
  have a: "id_sub ada = Latin1 ''108''"
          "id_email ada = map_option Latin1 (Some ''ada@example.com'')"
          "id_name ada = map_option Latin1 (Some ''Ada'')"
    by (simp_all add: ada_def)
  from session_round_trip [OF a, of 1700000000000 1700000000000]
  obtain token where t: "sessionToken js ada 1700000000000 1700000000000 = Inr token"
    and v: "\<forall>t. t div 1000 \<le> 1700000000000 div 1000 + 86400 \<longrightarrow>
                 session_GET js (Some token) t =
                   \<lparr>status = 200,
                    body = Some (JObj [(''authenticated'', JBool True),
                                       (''user'', JObj [(''sub'', JStr ''108''),
                                                        (''email'', JStr ''ada@example.com''),
                                                        (''name'', JStr ''Ada''),
                                                        (''exp'', JNum 1700086400)]),
                                       (''message'', JStr ''Session valid'')]),
                    redirect = None, headers = [], deleted_cookies = []\<rparr>"
    and w: "\<forall>t. (0::int) \<le> 1700000000000 \<and> 1700000000000 div 1000 + 86400 < t div 1000 \<longrightarrow>
                 session_GET js (Some token) t =
                   \<lparr>status = 200,
                    body = Some (JObj [(''authenticated'', JBool False), (''user'', JNull),
                                       (''message'', JStr ''Session expired'')]),
                    redirect = None, headers = [], deleted_cookies = []\<rparr>"
    by auto
  from t have k: "token = ada_cookie" by (simp add: ada_cookie_issued)
  have 1: "session_GET js (Some ada_cookie) 1700086400999 =
     \<lparr>status = 200,
      body = Some (JObj [(''authenticated'', JBool True),
                         (''user'', JObj [(''sub'', JStr ''108''),
                                          (''email'', JStr ''ada@example.com''),
                                          (''name'', JStr ''Ada''),
                                          (''exp'', JNum 1700086400)]),
                         (''message'', JStr ''Session valid'')]),
      redirect = None, headers = [], deleted_cookies = []\<rparr>"
    using v [rule_format, of 1700086400999] by (simp add: k)
  have 2: "session_GET js (Some ada_cookie) 1700086401000 =
     \<lparr>status = 200,
      body = Some (JObj [(''authenticated'', JBool False), (''user'', JNull),
                         (''message'', JStr ''Session expired'')]),
      redirect = None, headers = [], deleted_cookies = []\<rparr>"
    using w [rule_format, of 1700086401000] by (simp add: k)
  from 1 2 show ?thesis by (simp add: ada_cookie_issued)
qed

section \<open>Redirect-URI allow-list\<close>

lemma replace_first_absent:
  "pat \<noteq> [] \<Longrightarrow> \<not> sublist pat s \<Longrightarrow> replace_first pat rep s = s"
proof (induction s)
  case Nil
  then show ?case by simp
next
  case (Cons c cs)
  from Cons.prems(2) have np: "\<not> prefix pat (c # cs)"
    by (simp add: sublist_Cons_right)
  from Cons.prems(2) have "\<not> sublist pat cs"
    by (simp add: sublist_Cons_right)
  with Cons.IH Cons.prems(1) np show ?case by simp
qed

lemma take_before_last:
  assumes "xs \<noteq> []" and "ys \<noteq> []"
  shows "take (length ys) (xs @ ys @ zs) = take (length ys) (xs @ butlast ys)"
proof -
  have lt: "length ys - length xs < length ys"
    using assms by (cases xs; cases ys) simp_all
  have "take (length ys - length xs) (ys @ zs) = take (length ys - length xs) ys"
    using lt by simp
  moreover have "take (length ys - length xs) (butlast ys) = take (length ys - length xs) ys"
    using lt by (rule take_butlast)
  ultimately show ?thesis by simp
qed

lemma prefix_before_last:
  assumes "xs \<noteq> []" and "ys \<noteq> []" and "prefix ys (xs @ ys @ zs)"
  shows "prefix ys (xs @ butlast ys)"
proof -
  from assms(3) obtain r where r: "xs @ ys @ zs = ys @ r"
    by (auto simp: prefix_def)
  have "take (length ys) (xs @ ys @ zs) = ys"
    by (simp only: r) simp
  with take_before_last [OF assms(1,2), of zs]
  have "take (length ys) (xs @ butlast ys) = ys" by simp
  then show ?thesis
    using take_is_prefix [of "length ys" "xs @ butlast ys"] by simp
qed

lemma replace_first_at:
  "pat \<noteq> [] \<Longrightarrow> \<not> sublist pat (pre @ butlast pat) \<Longrightarrow>
     replace_first pat rep (pre @ pat @ post) = pre @ rep @ post"
proof (induction pre)
  case Nil
  then show ?case by (cases pat) simp_all
next
  case (Cons c pre)
  have np: "\<not> prefix pat (c # pre @ pat @ post)"
  proof
    assume p: "prefix pat (c # pre @ pat @ post)"
    have "prefix pat ((c # pre) @ butlast pat)"
      by (rule prefix_before_last [where zs = post]) (use Cons.prems(1) p in simp_all)
    then have "sublist pat ((c # pre) @ butlast pat)"
      by (rule prefix_imp_sublist)
    with Cons.prems(2) show False by simp
  qed
  from Cons.prems(2) have "\<not> sublist pat (pre @ butlast pat)"
    by (auto simp: sublist_Cons_right)
  with Cons.IH Cons.prems(1) have "replace_first pat rep (pre @ pat @ post) = pre @ rep @ post"
    by simp
  with np show ?case by simp
qed

lemma replace_first_snoc:
  "pat \<noteq> [] \<Longrightarrow> c \<notin> set pat \<Longrightarrow>
     replace_first pat rep (s @ [c]) = replace_first pat rep s @ [c]"
proof (induction s)
  case Nil
  then have "\<not> prefix pat [c]"
    by (cases pat) (auto simp: prefix_def Cons_eq_append_conv)
  with Nil show ?case by simp
next
  case (Cons a s)
  have "prefix pat (a # s @ [c]) \<longleftrightarrow> prefix pat (a # s)"
  proof
    assume "prefix pat (a # s @ [c])"
    then have "prefix pat ((a # s) @ [c])" by simp
    then have "prefix pat (a # s) \<or> pat = (a # s) @ [c]"
      using prefix_snoc [of pat "a # s" c] by blast
    with Cons.prems(2) show "prefix pat (a # s)" by auto
  next
    assume "prefix pat (a # s)"
    then show "prefix pat (a # s @ [c])"
      by (metis append_Cons prefix_prefix)
  qed
  then have iff: "prefix pat (a # s @ [c]) = prefix pat (a # s)" by simp
  show ?case
  proof (cases "prefix pat (a # s)")
    case True
    then have "length pat \<le> length (a # s)" by (rule prefix_length_le)
    then have z: "length pat - length (a # s) = 0" by simp
    have "drop (length pat) ((a # s) @ [c])
            = drop (length pat) (a # s) @ drop (length pat - length (a # s)) [c]"
      by (rule drop_append)
    then have "drop (length pat) (a # s @ [c]) = drop (length pat) (a # s) @ [c]"
      by (simp only: z drop_0 append_Cons)
    with True iff show ?thesis by simp
  next
    case False
    with iff Cons show ?thesis by simp
  qed
qed

lemma replace_first_keeps_end:
  "s \<noteq> [] \<Longrightarrow> rep \<noteq> [] \<Longrightarrow> last s \<noteq> c \<Longrightarrow> last rep \<noteq> c \<Longrightarrow>
     replace_first pat rep s \<noteq> [] \<and> last (replace_first pat rep s) \<noteq> c"
proof (induction s)
  case Nil
  then show ?case by simp
next
  case (Cons a s)
  show ?case
  proof (cases "prefix pat (a # s)")
    case True
    then have eq: "replace_first pat rep (a # s) = rep @ drop (length pat) (a # s)"
      by simp
    show ?thesis
    proof (cases "drop (length pat) (a # s) = []")
      case True
      with eq Cons.prems show ?thesis by simp
    next
      case False
      then have "length pat < length (a # s)" by simp
      then have "last (drop (length pat) (a # s)) = last (a # s)"
        by (rule last_drop)
      with eq False Cons.prems show ?thesis by simp
    qed
  next
    case False
    then have pne: "pat \<noteq> []" by auto
    from False have eq: "replace_first pat rep (a # s) = a # replace_first pat rep s"
      by simp
    show ?thesis
    proof (cases "s = []")
      case True
      with eq pne Cons.prems show ?thesis by simp
    next
      case ne: False
      with Cons.prems have "last s \<noteq> c" by simp
      with Cons.IH ne Cons.prems have "replace_first pat rep s \<noteq> []
          \<and> last (replace_first pat rep s) \<noteq> c" by simp
      with eq show ?thesis by simp
    qed
  qed
qed


lemma inline_normalize_slash:
  assumes "uri = [] \<or> last uri \<noteq> CHR ''/''"
  shows "inline_normalize (uri @ ''/'') = inline_normalize uri"
proof -
  let ?r = "replace_first ''127.0.0.1'' ''localhost'' uri"
  have snoc: "replace_first ''127.0.0.1'' ''localhost'' (uri @ ''/'') = ?r @ ''/''"
    by (rule replace_first_snoc) simp_all
  have keep: "strip_trailing_slash ?r = ?r"
  proof (cases "uri = []")
    case True
    then show ?thesis by (simp add: strip_trailing_slash_def)
  next
    case False
    with assms have "last uri \<noteq> CHR ''/''" by simp
    with False have "?r \<noteq> [] \<and> last ?r \<noteq> CHR ''/''"
      by (intro replace_first_keeps_end) simp_all
    then show ?thesis by (simp add: strip_trailing_slash_def)
  qed
  have "strip_trailing_slash (?r @ ''/'') = ?r"
    by (simp add: strip_trailing_slash_def)
  with snoc keep show ?thesis by (simp add: inline_normalize_def)
qed

lemma inline_normalize_loopback:
  assumes "\<not> sublist ''127.0.0.1'' (pre @ ''127.0.0.'')"
      and "\<not> sublist ''127.0.0.1'' (pre @ ''localhost'' @ post)"
  shows "inline_normalize (pre @ ''127.0.0.1'' @ post) = inline_normalize (pre @ ''localhost'' @ post)"
proof -
  have b: "butlast ''127.0.0.1'' = ''127.0.0.''" by simp
  have "replace_first ''127.0.0.1'' ''localhost'' (pre @ ''127.0.0.1'' @ post)
          = pre @ ''localhost'' @ post"
    by (rule replace_first_at) (simp, simp only: b assms(1), simp)
  moreover have "replace_first ''127.0.0.1'' ''localhost'' (pre @ ''localhost'' @ post)
          = pre @ ''localhost'' @ post"
    by (rule replace_first_absent) (simp, rule assms(2))
  ultimately show ?thesis by (simp only: inline_normalize_def)
qed

lemma isAllowedRedirectUri_iff:
  "isAllowedRedirectUri e uri \<longleftrightarrow>
     (\<exists>x\<in>set (allowedRedirects e). inline_normalize uri = inline_normalize x)"
  by (auto simp: isAllowedRedirectUri_def Let_def)

lemma isAllowedRedirectUri_cong:
  "inline_normalize u = inline_normalize v \<Longrightarrow> isAllowedRedirectUri e u = isAllowedRedirectUri e v"
  by (simp add: isAllowedRedirectUri_def Let_def)

text \<open>
  C4, as stated, fails: \<open>isAllowedRedirectUri\<close> compares without case folding, so a URI
  that differs from an allow-list entry only in the letter case of its host is rejected
  although \<open>normalizeRedirectUri\<close> maps both to the same text.
\<close>

lemma allowedRedirects_unconfigured:
  "allowedRedirects unconfigured =
     [''http://localhost:3000/api/auth/callback/google'',
      ''http://localhost:3000/api/auth/callback/google'',
      ''http://127.0.0.1:3000/api/auth/callback/google'',
      ''https://person-search-pearl.vercel.app/api/auth/callback/google'']"
  by (simp add: allowedRedirects_def unconfigured_def getRedirectUris_google_def getBaseUrl_def
        truthy_def DEFAULT_LOCAL_HOST_def DEFAULT_LOCAL_PORT_def)

lemma allowedRedirects_configured:
  "allowedRedirects configured = allowedRedirects unconfigured"
  by (simp add: allowedRedirects_def configured_def unconfigured_def getRedirectUris_google_def
        getBaseUrl_def truthy_def)

lemma normalized_allowed_unconfigured:
  "map inline_normalize (allowedRedirects unconfigured) =
     [''http://localhost:3000/api/auth/callback/google'',
      ''http://localhost:3000/api/auth/callback/google'',
      ''http://localhost:3000/api/auth/callback/google'',
      ''https://person-search-pearl.vercel.app/api/auth/callback/google'']"
  unfolding allowedRedirects_unconfigured by code_simp

theorem isAllowedRedirectUri_case_counterexample:
  "normalizeRedirectUri ''http://LOCALHOST:3000/api/auth/callback/google''
     = normalizeRedirectUri ''http://localhost:3000/api/auth/callback/google''
   \<and> ''http://localhost:3000/api/auth/callback/google'' \<in> set (allowedRedirects unconfigured)
   \<and> isAllowedRedirectUri unconfigured ''http://localhost:3000/api/auth/callback/google''
   \<and> \<not> isAllowedRedirectUri unconfigured ''http://LOCALHOST:3000/api/auth/callback/google''"
proof -
  have a: "normalizeRedirectUri ''http://LOCALHOST:3000/api/auth/callback/google''
     = normalizeRedirectUri ''http://localhost:3000/api/auth/callback/google''"
    by code_simp
  have b: "inline_normalize ''http://localhost:3000/api/auth/callback/google''
     = ''http://localhost:3000/api/auth/callback/google''"
    by code_simp
  have c: "inline_normalize ''http://LOCALHOST:3000/api/auth/callback/google''
     = ''http://LOCALHOST:3000/api/auth/callback/google''"
    by code_simp
  show ?thesis
    by (simp add: a isAllowedRedirectUri_def Let_def normalized_allowed_unconfigured b c)
       (simp add: allowedRedirects_unconfigured)
qed

text \<open>
  C4, amended. \<open>isAllowedRedirectUri\<close> holds exactly when the URI and some allow-list
  entry agree after the normalisation written inside it: the first \<open>127.0.0.1\<close> replaced
  by \<open>localhost\<close> and one trailing slash removed, compared case-sensitively. Its result
  does not change when one slash is appended to a URI that does not end in a slash, nor
  when the only occurrence of \<open>127.0.0.1\<close> is written \<open>localhost\<close>.
\<close>

theorem isAllowedRedirectUri_inline_normalized:
  "(isAllowedRedirectUri e uri \<longleftrightarrow>
      (\<exists>x\<in>set (allowedRedirects e). inline_normalize uri = inline_normalize x))
   \<and> (uri = [] \<or> last uri \<noteq> CHR ''/'' \<longrightarrow>
        isAllowedRedirectUri e (uri @ ''/'') = isAllowedRedirectUri e uri)
   \<and> (\<not> sublist ''127.0.0.1'' (pre @ ''127.0.0.'')
        \<and> \<not> sublist ''127.0.0.1'' (pre @ ''localhost'' @ post) \<longrightarrow>
        isAllowedRedirectUri e (pre @ ''127.0.0.1'' @ post)
          = isAllowedRedirectUri e (pre @ ''localhost'' @ post))"
  using isAllowedRedirectUri_iff [of e uri]
        isAllowedRedirectUri_cong [OF inline_normalize_slash, of uri e]
        isAllowedRedirectUri_cong [OF inline_normalize_loopback, of pre post e]
  by blast


theorem isAllowedRedirectUri_inline_normalized_witness:
  "isAllowedRedirectUri unconfigured (''http://localhost:3000/api/auth/callback/google'' @ ''/'')
     = isAllowedRedirectUri unconfigured ''http://localhost:3000/api/auth/callback/google''
   \<and> isAllowedRedirectUri unconfigured (''http://'' @ ''127.0.0.1'' @ '':3000/cb'')
     = isAllowedRedirectUri unconfigured (''http://'' @ ''localhost'' @ '':3000/cb'')"
proof -
  have h1: "\<not> sublist ''127.0.0.1'' (''http://'' @ ''127.0.0.'')"
    by (simp add: sublist_Cons_right)
  have h2: "\<not> sublist ''127.0.0.1'' (''http://'' @ ''localhost'' @ '':3000/cb'')"
    by (simp add: sublist_Cons_right)
  have h3: "last ''http://localhost:3000/api/auth/callback/google'' \<noteq> CHR ''/''"
    by simp
  from isAllowedRedirectUri_inline_normalized
         [of unconfigured "''http://localhost:3000/api/auth/callback/google''"
             "''http://''" "'':3000/cb''"] h1 h2 h3
  show ?thesis by blast
qed


section \<open>The authorization endpoint normalises the redirect URI twice\<close>

text \<open>
  The test of the token endpoint, \<open>isAllowedRedirectUri\<close> on the URI as received, accepts
  only a URI whose normal form is the normal form of an allow-list entry.
\<close>

lemma normalizeRedirectUri_inline:
  "normalizeRedirectUri u = toLowerCase (inline_normalize u)"
  by (simp add: normalizeRedirectUri_def inline_normalize_def)

lemma allowed_imp_normalized:
  "isAllowedRedirectUri e u \<Longrightarrow>
     \<exists>x\<in>set (allowedRedirects e). normalizeRedirectUri u = normalizeRedirectUri x"
  by (auto simp: isAllowedRedirectUri_iff normalizeRedirectUri_inline)

lemma normalized_allowed_configured:
  "map normalizeRedirectUri (allowedRedirects configured) =
     [''http://localhost:3000/api/auth/callback/google'',
      ''http://localhost:3000/api/auth/callback/google'',
      ''http://localhost:3000/api/auth/callback/google'',
      ''https://person-search-pearl.vercel.app/api/auth/callback/google'']"
  unfolding allowedRedirects_configured allowedRedirects_unconfigured by code_simp

lemma double_slash_normalized:
  "normalizeRedirectUri ''http://localhost:3000/api/auth/callback/google//''
     = ''http://localhost:3000/api/auth/callback/google/''"
  by code_simp

lemma double_slash_inline:
  "inline_normalize ''http://localhost:3000/api/auth/callback/google//''
     = ''http://localhost:3000/api/auth/callback/google/''"
  by code_simp

lemma single_slash_inline:
  "inline_normalize ''http://localhost:3000/api/auth/callback/google/''
     = ''http://localhost:3000/api/auth/callback/google''"
  by code_simp

lemma double_slash_rejected:
  "\<not> isAllowedRedirectUri configured ''http://localhost:3000/api/auth/callback/google//''"
  by (simp add: isAllowedRedirectUri_def Let_def double_slash_inline
        allowedRedirects_configured normalized_allowed_unconfigured)

lemma single_slash_allowed:
  "isAllowedRedirectUri configured ''http://localhost:3000/api/auth/callback/google/''"
  by (simp add: isAllowedRedirectUri_def Let_def single_slash_inline
        allowedRedirects_configured normalized_allowed_unconfigured)

lemma double_slash_valid:
  "validateAuthParams (authorize_params double_slash_query)
     = \<lparr>isValid = True, error = None, errorDescription = None\<rparr>"
  by (simp add: validateAuthParams_def authorize_params_def double_slash_query_def or_else_def
        truthy_def or_undefined_def)

text \<open>
  C6. Evaluation at the failing input: an authorization request with valid parameters
  and the configured client id whose \<open>redirect_uri\<close> is the callback URI followed by two
  slashes. The normal form of that URI, \<open>.../google/\<close>, is the normal form of no
  allow-list entry, and \<open>isAllowedRedirectUri\<close> applied to the URI as received (the test
  of the token endpoint) rejects it. The authorization endpoint applies
  \<open>isAllowedRedirectUri\<close> to the normal form, which strips a second slash, and answers
  with the redirect to the upstream provider instead of \<open>invalid_request\<close>.
\<close>

theorem authorize_GET_accepts_double_slash:
  "normalizeRedirectUri ''http://localhost:3000/api/auth/callback/google//''
     \<notin> set (map normalizeRedirectUri (allowedRedirects configured))
   \<and> \<not> isAllowedRedirectUri configured ''http://localhost:3000/api/auth/callback/google//''
   \<and> isValid (validateAuthParams (authorize_params double_slash_query))
   \<and> double_slash_query ''client_id'' = GOOGLE_CLIENT_ID configured
   \<and> authorize_GET every_uri_parses configured double_slash_query =
       \<lparr>status = 307, body = None,
        redirect = Some (Location ''https://accounts.google.com/o/oauth2/v2/auth''
           [(''client_id'', ''web-client.apps.googleusercontent.com''),
            (''redirect_uri'', ''http://localhost:3000/api/auth/callback/google''),
            (''response_type'', ''code''),
            (''scope'', ''openid profile email''),
            (''access_type'', ''offline''),
            (''prompt'', ''consent'')]),
        headers = [], deleted_cookies = []\<rparr>"
proof -
  have a: "normalizeRedirectUri ''http://localhost:3000/api/auth/callback/google//''
     \<notin> set (map normalizeRedirectUri (allowedRedirects configured))"
    by (simp add: normalized_allowed_configured double_slash_normalized)
  have r: "or_else (ap_redirect_uri (authorize_params double_slash_query)) []
             = ''http://localhost:3000/api/auth/callback/google//''"
    by (simp add: authorize_params_def double_slash_query_def or_else_def)
  have g: "GOOGLE_CLIENT_ID configured = Some ''web-client.apps.googleusercontent.com''"
    by (simp add: configured_def unconfigured_def)
  have c: "ap_client_id (authorize_params double_slash_query)
             = Some ''web-client.apps.googleusercontent.com''"
    by (simp add: authorize_params_def double_slash_query_def or_else_def)
  have q: "double_slash_query ''client_id'' = GOOGLE_CLIENT_ID configured"
    by (simp add: double_slash_query_def g)
  have p: "ap_scope (authorize_params double_slash_query) = Some ''openid profile email''"
          "ap_state (authorize_params double_slash_query) = None"
          "ap_code_challenge (authorize_params double_slash_query) = None"
          "ap_code_challenge_method (authorize_params double_slash_query) = None"
    by (simp_all add: authorize_params_def double_slash_query_def or_else_def or_undefined_def
          truthy_def)
  have u: "getRedirectUris_google configured = ''http://localhost:3000/api/auth/callback/google''"
    by (simp add: getRedirectUris_google_def getBaseUrl_def configured_def unconfigured_def
          truthy_def DEFAULT_LOCAL_HOST_def DEFAULT_LOCAL_PORT_def)
  have b: "authorize_GET every_uri_parses configured double_slash_query =
       \<lparr>status = 307, body = None,
        redirect = Some (Location ''https://accounts.google.com/o/oauth2/v2/auth''
           [(''client_id'', ''web-client.apps.googleusercontent.com''),
            (''redirect_uri'', ''http://localhost:3000/api/auth/callback/google''),
            (''response_type'', ''code''),
            (''scope'', ''openid profile email''),
            (''access_type'', ''offline''),
            (''prompt'', ''consent'')]),
        headers = [], deleted_cookies = []\<rparr>"
    by (simp add: authorize_GET_def Let_def double_slash_valid r g c p u truthy_def
          double_slash_normalized single_slash_allowed getGoogleAuthUrl_def
          NextResponse_redirect_def or_undefined_def)
  from a double_slash_rejected q b show ?thesis by (simp add: double_slash_valid)
qed

theorem authorize_GET_accepts_double_slash_witness:
  "status (authorize_GET every_uri_parses configured double_slash_query) = 307
   \<and> body (authorize_GET every_uri_parses configured double_slash_query) = None
   \<and> redirect (authorize_GET every_uri_parses configured double_slash_query) \<noteq> None"
  using authorize_GET_accepts_double_slash by simp

end
